theory Spec2Isabelle
  imports Main "HOL-Library.AList" "HOL-Library.Word"
begin

section \<open>Values exchanged with clients\<close>

text \<open>
  The relay of \<^verbatim>\<open>server/realtime-server.mjs\<close> receives text frames and runs
  \<^verbatim>\<open>JSON.parse\<close> on them. A parsed frame is a JSON value; a property that is absent
  reads as \<^verbatim>\<open>undefined\<close>, which is \<open>None\<close> here. Numbers are modelled as integers
  (the numeric fields of the protocol are positions and timestamps). An object is the list
  of its properties, one entry per key.
\<close>

datatype json =
    JNull
  | JBool bool
  | JNum int
  | JStr string
  | JArr "json list"
  | JObj "(string \<times> json) list"

text \<open>JavaScript truthiness of a value that may be \<^verbatim>\<open>undefined\<close>.\<close>

fun truthy :: "json option \<Rightarrow> bool" where
  "truthy None = False"
| "truthy (Some JNull) = False"
| "truthy (Some (JBool b)) = b"
| "truthy (Some (JNum n)) = (n \<noteq> 0)"
| "truthy (Some (JStr s)) = (s \<noteq> [])"
| "truthy (Some (JArr xs)) = True"
| "truthy (Some (JObj fs)) = True"

text \<open>\<^verbatim>\<open>x ?? y\<close>: the default replaces \<^verbatim>\<open>undefined\<close> and \<^verbatim>\<open>null\<close> only.\<close>

fun nullish :: "json option \<Rightarrow> json \<Rightarrow> json" where
  "nullish None y = y"
| "nullish (Some JNull) y = y"
| "nullish (Some x) y = x"

text \<open>
  \<^verbatim>\<open>x?.k\<close> for the property names the relay reads (none of them is a prototype
  property of strings, arrays, numbers or booleans): only an object can hold one.
\<close>

fun getProp :: "json option \<Rightarrow> string \<Rightarrow> json option" where
  "getProp (Some (JObj fs)) k = map_of fs k"
| "getProp _ k = None"

type_synonym conn = nat
type_synonym bytes = "8 word list"

section \<open>Libraries and the environment of one handler run\<close>

record jwt_payload =
  claim_userId :: "string option"
  claim_email :: "string option"

text \<open>
  The third-party functions the relay calls are parameters of the model: the CRDT library
  (\<^verbatim>\<open>new Y.Doc()\<close>, \<^verbatim>\<open>Y.applyUpdate\<close>, \<^verbatim>\<open>Y.encodeStateAsUpdate\<close>), Node's
  \<^verbatim>\<open>Buffer\<close> base64 codec, \<^verbatim>\<open>jwtVerify\<close> with the configured secret, and the way
  Prisma reads a \<^verbatim>\<open>token\<close> filter that is not a string. \<open>None\<close> is a thrown
  exception. \<^verbatim>\<open>Y.applyUpdate\<close> changes the document it is given in place and may throw
  after it has integrated part of the update, so its outcome carries the document in
  both cases.
\<close>

datatype 'd applied = Applied 'd | Threw 'd

record 'd lib =
  newDoc :: "'d"
  applyUpdate :: "bytes \<Rightarrow> 'd \<Rightarrow> 'd applied"
  encodeStateAsUpdate :: "'d \<Rightarrow> bytes"
  bufferToBase64 :: "bytes \<Rightarrow> string"
  bufferFromBase64 :: "json \<Rightarrow> bytes option"
  jwtVerify :: "json \<Rightarrow> jwt_payload option"
  prismaTokenFilter :: "json \<Rightarrow> (string \<Rightarrow> bool) option"

datatype redis_failure = ConnectionIsClosed | OtherFailure

text \<open>
  What the outside world decides during one handler run: the clock (\<^verbatim>\<open>Date.now()\<close>,
  \<^verbatim>\<open>new Date()\<close>), which sockets have \<^verbatim>\<open>readyState === OPEN\<close>, the sockets of
  \<^verbatim>\<open>wss.clients\<close>, whether \<^verbatim>\<open>redis && redis.status === "ready"\<close>, and which store
  calls throw. \<open>ConnectionIsClosed\<close> is an error whose message includes
  \<^verbatim>\<open>"Connection is closed"\<close>.
\<close>

record env =
  now :: int
  isOpen :: "conn \<Rightarrow> bool"
  clients :: "conn list"
  redisReady :: bool
  redisGetThrows :: bool
  redisSetThrows :: "redis_failure option"
  documentFindThrows :: bool
  shareFindThrows :: bool
  linkFindThrows :: bool
  versionFindThrows :: bool
  versionCreateThrows :: bool

section \<open>The durable store\<close>

record document =
  doc_id :: string
  doc_ownerId :: string

record documentShare =
  share_documentId :: string
  share_userId :: string
  share_permission :: string

record documentShareLink =
  link_documentId :: string
  link_token :: string
  link_permission :: string
  link_expiresAt :: "int option"

record documentVersion =
  ver_documentId :: string
  ver_authorId :: string
  ver_summary :: string
  ver_snapshot :: string
  ver_createdAt :: int

record database =
  documents :: "document list"
  documentShares :: "documentShare list"
  documentShareLinks :: "documentShareLink list"
  documentVersions :: "documentVersion list"

text \<open>\<^verbatim>\<open>prisma.document.findUnique({ where: { id } })\<close>\<close>

definition findDocument :: "database \<Rightarrow> string \<Rightarrow> document option" where
  "findDocument d documentId = find (\<lambda>x. doc_id x = documentId) (documents d)"

text \<open>\<^verbatim>\<open>prisma.documentShare.findUnique({ where: { documentId_userId } })\<close>\<close>

definition findShare :: "database \<Rightarrow> string \<Rightarrow> string \<Rightarrow> documentShare option" where
  "findShare d documentId userId =
     find (\<lambda>x. share_documentId x = documentId \<and> share_userId x = userId) (documentShares d)"

text \<open>
  The \<^verbatim>\<open>where\<close> clause of the share-link query: same document, matching token, and
  \<^verbatim>\<open>expiresAt\<close> null or strictly later than the current time.
\<close>

definition linkValid :: "int \<Rightarrow> string \<Rightarrow> (string \<Rightarrow> bool) \<Rightarrow> documentShareLink \<Rightarrow> bool" where
  "linkValid t documentId tokenOk l \<longleftrightarrow>
     link_documentId l = documentId \<and> tokenOk (link_token l) \<and>
     (case link_expiresAt l of None \<Rightarrow> True | Some e \<Rightarrow> e > t)"

definition findShareLink ::
  "database \<Rightarrow> int \<Rightarrow> string \<Rightarrow> (string \<Rightarrow> bool) \<Rightarrow> documentShareLink option" where
  "findShareLink d t documentId tokenOk = find (linkValid t documentId tokenOk) (documentShareLinks d)"

text \<open>
  \<^verbatim>\<open>prisma.documentVersion.findFirst({ where: { documentId }, orderBy: { createdAt: "desc" } })\<close>:
  a row of the document with the greatest \<^verbatim>\<open>createdAt\<close> (the earliest stored one among equals).
\<close>

fun latestOf :: "documentVersion list \<Rightarrow> documentVersion option" where
  "latestOf [] = None"
| "latestOf (v # vs) =
     (case latestOf vs of
        None \<Rightarrow> Some v
      | Some w \<Rightarrow> if ver_createdAt w > ver_createdAt v then Some w else Some v)"

definition findLatestVersion :: "database \<Rightarrow> string \<Rightarrow> documentVersion option" where
  "findLatestVersion d documentId =
     latestOf (filter (\<lambda>v. ver_documentId v = documentId) (documentVersions d))"

section \<open>Token verification and access resolution\<close>

record auth =
  auth_userId :: string
  auth_email :: string

text \<open>\<^verbatim>\<open>verifyToken\<close>: a payload without a non-empty \<^verbatim>\<open>userId\<close> and \<^verbatim>\<open>email\<close> is refused.\<close>

definition verifyToken :: "'d lib \<Rightarrow> json \<Rightarrow> auth option" where
  "verifyToken L token =
     (case jwtVerify L token of
        None \<Rightarrow> None
      | Some payload \<Rightarrow>
          (case (claim_userId payload, claim_email payload) of
             (Some u, Some e) \<Rightarrow>
               if u = [] \<or> e = [] then None else Some \<lparr>auth_userId = u, auth_email = e\<rparr>
           | _ \<Rightarrow> None))"

datatype access_error = invalidId | notFound | noAccess

datatype access = Granted string | Denied access_error

text \<open>A string token is compared by equality; any other value is left to Prisma.\<close>

definition tokenFilter :: "'d lib \<Rightarrow> json \<Rightarrow> (string \<Rightarrow> bool) option" where
  "tokenFilter L t = (case t of JStr s \<Rightarrow> Some (\<lambda>x. x = s) | _ \<Rightarrow> prismaTokenFilter L t)"

text \<open>
  \<^verbatim>\<open>getDocumentAccess(documentId, userId, shareToken)\<close>. Only the document lookup sits in
  a \<^verbatim>\<open>try\<close>; a throwing share or link query rejects the returned promise, which is
  \<open>None\<close> here.
\<close>

definition getDocumentAccess ::
  "'d lib \<Rightarrow> env \<Rightarrow> database \<Rightarrow> json option \<Rightarrow> string \<Rightarrow> json \<Rightarrow> access option" where
  "getDocumentAccess L e d documentId userId shareToken =
     (case documentId of
        Some (JStr i) \<Rightarrow>
          if i = [] then Some (Denied invalidId)
          else if documentFindThrows e then Some (Denied notFound)
          else
            (case findDocument d i of
               None \<Rightarrow> Some (Denied notFound)
             | Some document \<Rightarrow>
                 if doc_ownerId document = userId then Some (Granted ''owner'')
                 else if shareFindThrows e then None
                 else
                   (case findShare d i userId of
                      Some share \<Rightarrow> Some (Granted (share_permission share))
                    | None \<Rightarrow>
                        if truthy (Some shareToken) then
                          (if linkFindThrows e then None
                           else
                             (case tokenFilter L shareToken of
                                None \<Rightarrow> None
                              | Some tokenOk \<Rightarrow>
                                  (case findShareLink d (now e) i tokenOk of
                                     Some link \<Rightarrow> Some (Granted (link_permission link))
                                   | None \<Rightarrow> Some (Denied noAccess))))
                        else Some (Denied noAccess)))
      | _ \<Rightarrow> Some (Denied invalidId))"

section \<open>Rooms and the relay state\<close>

record presenceEntry =
  p_userId :: string
  p_name :: json
  p_avatarColor :: json
  p_cursorPosition :: json
  p_selectionRange :: json
  p_isTyping :: json
  p_lastHeartbeat :: int

text \<open>
  A pending \<^verbatim>\<open>setTimeout\<close> of \<^verbatim>\<open>schedulePersist\<close>: when it is due and the document id
  its callback has captured.
\<close>

record timer =
  timer_due :: int
  timer_documentId :: string

text \<open>
  A room object. \<^verbatim>\<open>connections\<close> is a \<^verbatim>\<open>Set\<close> and \<^verbatim>\<open>presence\<close> a \<^verbatim>\<open>Map\<close>, both
  iterated in insertion order, so they are lists here.
\<close>

record 'd room =
  room_doc :: "'d"
  connections :: "conn list"
  presence :: "(conn \<times> presenceEntry) list"
  persistTimeout :: "timer option"

record conn_state =
  cs_documentId :: string
  cs_userId :: string
  cs_permission :: string

text \<open>
  Room objects live in a store and the registry \<^verbatim>\<open>rooms\<close> maps a document id to the
  address of its room: a room deleted from the registry is still reachable from the callback
  of its timer. Addresses from \<open>nextRoom\<close> on are not allocated yet. \<open>redis\<close> is the content
  of the cache and \<open>db\<close> the content of the durable store.
\<close>

record 'd state =
  heap :: "nat \<Rightarrow> 'd room"
  nextRoom :: nat
  rooms :: "(string \<times> nat) list"
  connectionState :: "conn \<rightharpoonup> conn_state"
  lastDbPersist :: "string \<rightharpoonup> int"
  operations :: "int list"
  redisAvailable :: bool
  redis :: "string \<rightharpoonup> string"
  db :: database

datatype frame =
    ErrorFrame string
  | DocSync string string
  | YjsUpdate string json
  | PresenceUpdate string "presenceEntry list"

text \<open>
  What a handler does to the outside: frames sent, sockets closed, terminated or pinged,
  and a rejected promise nobody handles.
\<close>

datatype effect =
    Send conn frame
  | Close conn
  | Terminate conn
  | Ping conn
  | UnhandledRejection

definition heartbeatIntervalMs :: int where "heartbeatIntervalMs = 5000"
definition heartbeatTimeoutMs :: int where "heartbeatTimeoutMs = 10000"
definition persistDelayMs :: int where "persistDelayMs = 1000"
definition dbPersistIntervalMs :: int where "dbPersistIntervalMs = 5000"

definition encodeUpdate :: "'d lib \<Rightarrow> bytes \<Rightarrow> string" where
  "encodeUpdate L update = bufferToBase64 L update"

definition decodeUpdate :: "'d lib \<Rightarrow> json \<Rightarrow> bytes option" where
  "decodeUpdate L payload = bufferFromBase64 L payload"

definition getRedisKey :: "string \<Rightarrow> string" where
  "getRedisKey documentId = ''doc:'' @ documentId @ '':state''"

text \<open>\<^verbatim>\<open>Set.prototype.add\<close> on an insertion-ordered set.\<close>

definition setAdd :: "'a \<Rightarrow> 'a list \<Rightarrow> 'a list" where
  "setAdd x xs = (if x \<in> set xs then xs else xs @ [x])"

text \<open>
  Decoding and applying a stored snapshot inside the \<^verbatim>\<open>try\<close> blocks of \<^verbatim>\<open>getRoom\<close>,
  on the one \<^verbatim>\<open>Y.Doc\<close> object the function holds: the document afterwards, and whether
  something threw. A decoding that throws has not touched the document.
\<close>

definition restoreFrom :: "'d lib \<Rightarrow> string \<Rightarrow> 'd \<Rightarrow> 'd applied" where
  "restoreFrom L text d =
     (case decodeUpdate L (JStr text) of
        None \<Rightarrow> Threw d
      | Some u \<Rightarrow> applyUpdate L u d)"

text \<open>
  The cache step of \<^verbatim>\<open>getRoom\<close>: the document and the flag \<^verbatim>\<open>restored\<close>. The
  \<^verbatim>\<open>catch\<close> block only logs, so after a throw the document is what the call left.
\<close>

definition restoreFromRedis :: "'d lib \<Rightarrow> env \<Rightarrow> string \<Rightarrow> 'd state \<Rightarrow> 'd \<times> bool" where
  "restoreFromRedis L e documentId s =
     (if redisAvailable s \<and> redisReady e then
        (if redisGetThrows e then (newDoc L, False)
         else
           (case redis s (getRedisKey documentId) of
              None \<Rightarrow> (newDoc L, False)
            | Some persisted \<Rightarrow>
                if persisted = [] then (newDoc L, False)
                else
                  (case restoreFrom L persisted (newDoc L) of
                     Threw d \<Rightarrow> (d, False)
                   | Applied d \<Rightarrow> (d, True))))
      else (newDoc L, False))"

text \<open>The database step of \<^verbatim>\<open>getRoom\<close>, run when the cache step restored nothing.\<close>

definition restoreFromDatabase :: "'d lib \<Rightarrow> env \<Rightarrow> string \<Rightarrow> 'd state \<Rightarrow> 'd \<Rightarrow> 'd \<times> bool" where
  "restoreFromDatabase L e documentId s d =
     (if versionFindThrows e then (d, False)
      else
        (case findLatestVersion (db s) documentId of
           None \<Rightarrow> (d, False)
         | Some latestVersion \<Rightarrow>
             if ver_snapshot latestVersion = [] then (d, False)
             else
               (case restoreFrom L (ver_snapshot latestVersion) d of
                  Threw d' \<Rightarrow> (d', False)
                | Applied d' \<Rightarrow> (d', True))))"

text \<open>The document a new room starts with.\<close>

definition loadDoc :: "'d lib \<Rightarrow> env \<Rightarrow> string \<Rightarrow> 'd state \<Rightarrow> 'd" where
  "loadDoc L e documentId s =
     (case restoreFromRedis L e documentId s of
        (d, restored) \<Rightarrow>
          if \<not> restored then fst (restoreFromDatabase L e documentId s d) else d)"

text \<open>\<^verbatim>\<open>getRoom(documentId)\<close>: the address of the room and the state after registering it.\<close>

definition getRoom :: "'d lib \<Rightarrow> env \<Rightarrow> string \<Rightarrow> 'd state \<Rightarrow> nat \<times> 'd state" where
  "getRoom L e documentId s =
     (case map_of (rooms s) documentId of
        Some a \<Rightarrow> (a, s)
      | None \<Rightarrow>
          (let room = \<lparr>room_doc = loadDoc L e documentId s, connections = [],
                       presence = [], persistTimeout = None\<rparr>
           in (nextRoom s,
               s\<lparr>heap := (heap s)(nextRoom s := room),
                 nextRoom := Suc (nextRoom s),
                 rooms := AList.update documentId (nextRoom s) (rooms s)\<rparr>)))"

definition recordOperation :: "env \<Rightarrow> int list \<Rightarrow> int list" where
  "recordOperation e ops = dropWhile (\<lambda>t. now e - t > 60000) (ops @ [now e])"

section \<open>Persistence\<close>

text \<open>
  The database half of \<^verbatim>\<open>persistRoom\<close>: the write is skipped within
  \<open>dbPersistIntervalMs\<close> of the last recorded one, when the latest version already holds
  the snapshot, when the document is gone, and when a store call throws.
\<close>

definition persistToDatabase :: "env \<Rightarrow> string \<Rightarrow> string \<Rightarrow> 'd state \<Rightarrow> 'd state" where
  "persistToDatabase e documentId snapshot s =
     (let lastPersist = (case lastDbPersist s documentId of None \<Rightarrow> 0 | Some t \<Rightarrow> t)
      in if now e - lastPersist < dbPersistIntervalMs then s
         else if versionFindThrows e then s
         else
           (let latestVersion = findLatestVersion (db s) documentId
            in if (case latestVersion of None \<Rightarrow> True | Some v \<Rightarrow> ver_snapshot v \<noteq> snapshot) then
                 (if documentFindThrows e then s
                  else
                    (case findDocument (db s) documentId of
                       None \<Rightarrow> s
                     | Some d \<Rightarrow>
                         if versionCreateThrows e then s
                         else
                           s\<lparr>db := (db s)\<lparr>documentVersions := documentVersions (db s) @
                                  [\<lparr>ver_documentId = documentId, ver_authorId = doc_ownerId d,
                                    ver_summary = ''Auto-save'', ver_snapshot = snapshot,
                                    ver_createdAt = now e\<rparr>]\<rparr>,
                             lastDbPersist := (lastDbPersist s)(documentId \<mapsto> now e)\<rparr>))
               else s))"

text \<open>\<^verbatim>\<open>persistRoom(documentId, room)\<close>\<close>

definition persistRoom :: "'d lib \<Rightarrow> env \<Rightarrow> string \<Rightarrow> 'd room \<Rightarrow> 'd state \<Rightarrow> 'd state" where
  "persistRoom L e documentId room s =
     (let update = encodeStateAsUpdate L (room_doc room);
          snapshot = encodeUpdate L update
      in if redisAvailable s \<and> redisReady e then
           (case redisSetThrows e of
              None \<Rightarrow> s\<lparr>redis := (redis s)(getRedisKey documentId \<mapsto> snapshot)\<rparr>
            | Some ConnectionIsClosed \<Rightarrow>
                persistToDatabase e documentId snapshot (s\<lparr>redisAvailable := False\<rparr>)
            | Some OtherFailure \<Rightarrow> persistToDatabase e documentId snapshot s)
         else persistToDatabase e documentId snapshot s)"

text \<open>\<^verbatim>\<open>schedulePersist(documentId, room)\<close>: at most one timer per room.\<close>

definition schedulePersist :: "env \<Rightarrow> 'd state \<Rightarrow> string \<Rightarrow> 'd room \<Rightarrow> 'd room" where
  "schedulePersist e s documentId room =
     (case persistTimeout room of
        Some t \<Rightarrow> room
      | None \<Rightarrow>
          (let delay = (if redisAvailable s \<and> redisReady e then persistDelayMs
                        else dbPersistIntervalMs)
           in room\<lparr>persistTimeout :=
                    Some \<lparr>timer_due = now e + delay, timer_documentId = documentId\<rparr>\<rparr>))"

text \<open>The timer callback: the flag is cleared first, then the room is persisted.\<close>

definition persistTimerFired :: "'d lib \<Rightarrow> env \<Rightarrow> nat \<Rightarrow> 'd state \<Rightarrow> 'd state" where
  "persistTimerFired L e a s =
     (case persistTimeout (heap s a) of
        None \<Rightarrow> s
      | Some t \<Rightarrow>
          (let room = (heap s a)\<lparr>persistTimeout := None\<rparr>
           in persistRoom L e (timer_documentId t) room (s\<lparr>heap := (heap s)(a := room)\<rparr>)))"

section \<open>Broadcasts\<close>

text \<open>\<^verbatim>\<open>broadcast(room, payload, except)\<close>\<close>

definition broadcast :: "env \<Rightarrow> 'd room \<Rightarrow> frame \<Rightarrow> conn option \<Rightarrow> effect list" where
  "broadcast e room payload except =
     map (\<lambda>c. Send c payload)
       (filter (\<lambda>c. isOpen e c \<and> except \<noteq> Some c) (connections room))"

text \<open>
  The loop of \<^verbatim>\<open>broadcastPresence\<close> over the presence entries: \<^verbatim>\<open>usersByUserId\<close> keeps,
  for each user id, the first entry seen unless a later one has a strictly greater heartbeat.
\<close>

definition dedupStep ::
  "(string \<times> presenceEntry) list \<Rightarrow> presenceEntry \<Rightarrow> (string \<times> presenceEntry) list" where
  "dedupStep usersByUserId p =
     (case map_of usersByUserId (p_userId p) of
        None \<Rightarrow> AList.update (p_userId p) p usersByUserId
      | Some existing \<Rightarrow>
          if p_lastHeartbeat p > p_lastHeartbeat existing
          then AList.update (p_userId p) p usersByUserId
          else usersByUserId)"

definition presenceUsers :: "(conn \<times> presenceEntry) list \<Rightarrow> presenceEntry list" where
  "presenceUsers pres = map snd (foldl dedupStep [] (map snd pres))"

definition broadcastPresence :: "env \<Rightarrow> string \<Rightarrow> 'd room \<Rightarrow> effect list" where
  "broadcastPresence e documentId room =
     broadcast e room (PresenceUpdate documentId (presenceUsers (presence room))) None"

section \<open>The sweeper\<close>

text \<open>
  One round of the loop of \<^verbatim>\<open>cleanupRoom\<close> over the presence entries. The loop state is
  the room, \<^verbatim>\<open>connectionState\<close>, the sockets terminated so far and the flag \<^verbatim>\<open>updated\<close>.
\<close>

definition evictStep ::
  "env \<Rightarrow> 'd room \<times> (conn \<rightharpoonup> conn_state) \<times> effect list \<times> bool \<Rightarrow> conn \<times> presenceEntry \<Rightarrow>
   'd room \<times> (conn \<rightharpoonup> conn_state) \<times> effect list \<times> bool" where
  "evictStep e acc entry =
     (case acc of (room, cs, effs, updated) \<Rightarrow>
        if now e - p_lastHeartbeat (snd entry) > heartbeatTimeoutMs then
          (room\<lparr>presence := AList.delete (fst entry) (presence room),
                 connections := removeAll (fst entry) (connections room)\<rparr>,
           cs(fst entry := None),
           effs @ [Terminate (fst entry)],
           True)
        else (room, cs, effs, updated))"

text \<open>\<^verbatim>\<open>cleanupRoom(documentId, room)\<close>, the room being the object at address \<open>a\<close>.\<close>

definition cleanupRoom :: "env \<Rightarrow> string \<Rightarrow> nat \<Rightarrow> 'd state \<Rightarrow> 'd state \<times> effect list" where
  "cleanupRoom e documentId a s =
     (case foldl (evictStep e) (heap s a, connectionState s, [], False) (presence (heap s a)) of
        (room, cs, effs, updated) \<Rightarrow>
          (let s1 = s\<lparr>heap := (heap s)(a := room), connectionState := cs\<rparr>;
               effs1 = effs @ (if updated then broadcastPresence e documentId room else [])
           in (if connections room = [] then s1\<lparr>rooms := AList.delete documentId (rooms s1)\<rparr>
               else s1,
               effs1)))"

definition sweepStep ::
  "env \<Rightarrow> 'd state \<times> effect list \<Rightarrow> string \<times> nat \<Rightarrow> 'd state \<times> effect list" where
  "sweepStep e acc entry =
     (case cleanupRoom e (fst entry) (snd entry) (fst acc) of
        (s', effs) \<Rightarrow> (s', snd acc @ effs))"

text \<open>The \<^verbatim>\<open>setInterval\<close> callback: every registered room is cleaned, then open sockets are pinged.\<close>

definition sweep :: "env \<Rightarrow> 'd state \<Rightarrow> 'd state \<times> effect list" where
  "sweep e s =
     (case foldl (sweepStep e) (s, []) (rooms s) of
        (s', effs) \<Rightarrow> (s', effs @ map Ping (filter (isOpen e) (clients e))))"

text \<open>
  What the loop of \<^verbatim>\<open>cleanupRoom\<close> amounts to: an entry is stale when its heartbeat is
  more than \<open>heartbeatTimeoutMs\<close> old, the connections of the stale entries are evicted,
  and the others survive.
\<close>

definition stale :: "env \<Rightarrow> conn \<times> presenceEntry \<Rightarrow> bool" where
  "stale e x \<longleftrightarrow> now e - p_lastHeartbeat (snd x) > heartbeatTimeoutMs"

definition staleConnections :: "env \<Rightarrow> 'd room \<Rightarrow> conn list" where
  "staleConnections e room = map fst (filter (stale e) (presence room))"

definition survivors :: "env \<Rightarrow> 'd room \<Rightarrow> conn list" where
  "survivors e room = filter (\<lambda>c. c \<notin> set (staleConnections e room)) (connections room)"

definition evicted :: "env \<Rightarrow> 'd room \<Rightarrow> 'd room" where
  "evicted e room =
     room\<lparr>presence := filter (\<lambda>x. fst x \<notin> set (staleConnections e room)) (presence room),
          connections := survivors e room\<rparr>"

section \<open>Frame handlers\<close>

text \<open>
  The tail of the \<^verbatim>\<open>join_document\<close> branch, once access is granted: the room is looked up
  or created, the connection enters the three tracking structures, receives \<^verbatim>\<open>doc_sync\<close>,
  and presence is broadcast.
\<close>

definition joinGranted ::
  "'d lib \<Rightarrow> env \<Rightarrow> conn \<Rightarrow> json \<Rightarrow> auth \<Rightarrow> string \<Rightarrow> string \<Rightarrow> 'd state \<Rightarrow>
   'd state \<times> effect list" where
  "joinGranted L e connection message au documentId permission s =
     (case getRoom L e documentId s of
        (a, s1) \<Rightarrow>
          (let name = nullish (getProp (getProp (Some message) ''user'') ''name'')
                        (JStr (auth_email au));
               avatarColor = nullish (getProp (getProp (Some message) ''user'') ''avatarColor'')
                        (JStr ''#0ea5e9'');
               cursorPosition = nullish (getProp (Some message) ''cursorPosition'') (JNum 0);
               selectionRange = nullish (getProp (Some message) ''selectionRange'')
                        (JObj [(''start'', JNum 0), (''end'', JNum 0)]);
               entry = \<lparr>p_userId = auth_userId au, p_name = name, p_avatarColor = avatarColor,
                        p_cursorPosition = cursorPosition, p_selectionRange = selectionRange,
                        p_isTyping = JBool False, p_lastHeartbeat = now e\<rparr>;
               room = (heap s1 a)\<lparr>connections := setAdd connection (connections (heap s1 a)),
                                   presence := AList.update connection entry (presence (heap s1 a))\<rparr>;
               s2 = s1\<lparr>heap := (heap s1)(a := room),
                       connectionState := (connectionState s1)(connection \<mapsto>
                         \<lparr>cs_documentId = documentId, cs_userId = auth_userId au,
                          cs_permission = permission\<rparr>)\<rparr>
           in (s2,
               Send connection
                 (DocSync documentId (encodeUpdate L (encodeStateAsUpdate L (room_doc room))))
               # broadcastPresence e documentId room)))"

text \<open>
  The \<^verbatim>\<open>join_document\<close> branch of the message handler. Access is granted for string
  ids only, so the last case below is never taken.
\<close>

definition joinDocument ::
  "'d lib \<Rightarrow> env \<Rightarrow> conn \<Rightarrow> json \<Rightarrow> 'd state \<Rightarrow> 'd state \<times> effect list" where
  "joinDocument L e connection message s =
     (let token = nullish (getProp (Some message) ''token'') JNull;
          documentId = getProp (Some message) ''documentId'';
          shareToken = nullish (getProp (Some message) ''shareToken'') JNull
      in if \<not> truthy (Some token) \<or> \<not> truthy documentId then
           (s, [Send connection (ErrorFrame ''Unauthorized''), Close connection])
         else
           (case verifyToken L token of
              None \<Rightarrow> (s, [Send connection (ErrorFrame ''Unauthorized''), Close connection])
            | Some au \<Rightarrow>
                (case getDocumentAccess L e (db s) documentId (auth_userId au) shareToken of
                   None \<Rightarrow> (s, [UnhandledRejection])
                 | Some (Denied err) \<Rightarrow>
                     (if err = notFound \<or> err = invalidId then
                        (s, [Send connection (ErrorFrame ''Document not found''), Close connection])
                      else
                        (s, [Send connection (ErrorFrame ''Access denied''), Close connection]))
                 | Some (Granted permission) \<Rightarrow>
                     (case documentId of
                        Some (JStr d) \<Rightarrow> joinGranted L e connection message au d permission s
                      | _ \<Rightarrow> (s, [])))))"

text \<open>
  Joins that overlap. \<^verbatim>\<open>getRoom\<close> looks the document up in the registry and, when it
  finds no room, waits for the cache and the store before it registers a room of its own;
  a second join of the same document that starts in between finds no room either. A join
  suspended at that point holds the socket, the frame, the verified user, the document id
  and the permission it was granted.
\<close>

record pendingJoin =
  pj_connection :: conn
  pj_message :: json
  pj_auth :: auth
  pj_documentId :: string
  pj_permission :: string

text \<open>
  The \<^verbatim>\<open>join_document\<close> branch up to the registry lookup of \<^verbatim>\<open>getRoom\<close>: the pending
  join, if the handler gets that far and finds no room.
\<close>

definition joinSuspended ::
  "'d lib \<Rightarrow> env \<Rightarrow> conn \<Rightarrow> json \<Rightarrow> 'd state \<Rightarrow> pendingJoin option" where
  "joinSuspended L e connection message s =
     (let token = nullish (getProp (Some message) ''token'') JNull;
          documentId = getProp (Some message) ''documentId'';
          shareToken = nullish (getProp (Some message) ''shareToken'') JNull
      in if \<not> truthy (Some token) \<or> \<not> truthy documentId then None
         else
           (case verifyToken L token of
              None \<Rightarrow> None
            | Some au \<Rightarrow>
                (case getDocumentAccess L e (db s) documentId (auth_userId au) shareToken of
                   Some (Granted permission) \<Rightarrow>
                     (case documentId of
                        Some (JStr d) \<Rightarrow>
                          (case map_of (rooms s) d of
                             None \<Rightarrow>
                               Some \<lparr>pj_connection = connection, pj_message = message,
                                     pj_auth = au, pj_documentId = d,
                                     pj_permission = permission\<rparr>
                           | Some a \<Rightarrow> None)
                      | _ \<Rightarrow> None)
                 | _ \<Rightarrow> None)))"

text \<open>
  The rest of a suspended join, run in the state the relay has by then: \<^verbatim>\<open>getRoom\<close>
  loads the snapshot into its new document and registers its room under the document id,
  whatever the registry holds for that id by now; the handler then enters the connection
  into that room, as in \<open>joinGranted\<close>.
\<close>

definition joinResumed :: "'d lib \<Rightarrow> env \<Rightarrow> pendingJoin \<Rightarrow> 'd state \<Rightarrow> 'd state \<times> effect list" where
  "joinResumed L e p s =
     (let documentId = pj_documentId p;
          connection = pj_connection p;
          a = nextRoom s;
          created = \<lparr>room_doc = loadDoc L e documentId s, connections = [],
                     presence = [], persistTimeout = None\<rparr>;
          s1 = s\<lparr>heap := (heap s)(a := created),
                 nextRoom := Suc (nextRoom s),
                 rooms := AList.update documentId a (rooms s)\<rparr>;
          name = nullish (getProp (getProp (Some (pj_message p)) ''user'') ''name'')
                   (JStr (auth_email (pj_auth p)));
          avatarColor = nullish (getProp (getProp (Some (pj_message p)) ''user'') ''avatarColor'')
                   (JStr ''#0ea5e9'');
          cursorPosition = nullish (getProp (Some (pj_message p)) ''cursorPosition'') (JNum 0);
          selectionRange = nullish (getProp (Some (pj_message p)) ''selectionRange'')
                   (JObj [(''start'', JNum 0), (''end'', JNum 0)]);
          entry = \<lparr>p_userId = auth_userId (pj_auth p), p_name = name,
                   p_avatarColor = avatarColor, p_cursorPosition = cursorPosition,
                   p_selectionRange = selectionRange, p_isTyping = JBool False,
                   p_lastHeartbeat = now e\<rparr>;
          room = created\<lparr>connections := [connection], presence := [(connection, entry)]\<rparr>;
          s2 = s1\<lparr>heap := (heap s1)(a := room),
                  connectionState := (connectionState s1)(connection \<mapsto>
                    \<lparr>cs_documentId = documentId, cs_userId = auth_userId (pj_auth p),
                     cs_permission = pj_permission p\<rparr>)\<rparr>
      in (s2,
          Send connection
            (DocSync documentId (encodeUpdate L (encodeStateAsUpdate L (room_doc room))))
          # broadcastPresence e documentId room))"

text \<open>
  The \<^verbatim>\<open>yjs_update\<close> branch, for a connection with state \<open>st\<close> whose room is at \<open>a\<close>.
  When \<^verbatim>\<open>Y.applyUpdate\<close> throws, the \<^verbatim>\<open>catch\<close> block logs and the room keeps the
  document as the call left it; nothing is scheduled, counted or broadcast.
\<close>

definition yjsUpdate ::
  "'d lib \<Rightarrow> env \<Rightarrow> conn \<Rightarrow> json \<Rightarrow> conn_state \<Rightarrow> nat \<Rightarrow> 'd state \<Rightarrow> 'd state \<times> effect list" where
  "yjsUpdate L e connection message st a s =
     (case getProp (Some message) ''update'' of
        None \<Rightarrow> (s, [])
      | Some upd \<Rightarrow>
          if \<not> truthy (Some upd) then (s, [])
          else if cs_permission st = ''viewer'' then
            (s, [Send connection (ErrorFrame ''Read-only access'')])
          else
            (case decodeUpdate L upd of
               None \<Rightarrow> (s, [])
             | Some update \<Rightarrow>
                 (case applyUpdate L update (room_doc (heap s a)) of
                    Threw d \<Rightarrow> (s\<lparr>heap := (heap s)(a := (heap s a)\<lparr>room_doc := d\<rparr>)\<rparr>, [])
                  | Applied d \<Rightarrow>
                      (let room = schedulePersist e s (cs_documentId st)
                                    ((heap s a)\<lparr>room_doc := d\<rparr>)
                       in (s\<lparr>heap := (heap s)(a := room),
                             operations := recordOperation e (operations s)\<rparr>,
                           broadcast e room (YjsUpdate (cs_documentId st) upd)
                             (Some connection))))))"

text \<open>The \<^verbatim>\<open>cursor_update\<close> branch: absent fields keep their previous value.\<close>

definition cursorUpdate ::
  "env \<Rightarrow> conn \<Rightarrow> json \<Rightarrow> conn_state \<Rightarrow> nat \<Rightarrow> 'd state \<Rightarrow> 'd state \<times> effect list" where
  "cursorUpdate e connection message st a s =
     (case map_of (presence (heap s a)) connection of
        None \<Rightarrow> (s, [])
      | Some p \<Rightarrow>
          (let p' = p\<lparr>p_cursorPosition :=
                        nullish (getProp (Some message) ''cursorPosition'') (p_cursorPosition p),
                      p_selectionRange :=
                        nullish (getProp (Some message) ''selectionRange'') (p_selectionRange p),
                      p_isTyping := nullish (getProp (Some message) ''isTyping'') (p_isTyping p),
                      p_lastHeartbeat := now e\<rparr>;
               room = (heap s a)\<lparr>presence := AList.update connection p' (presence (heap s a))\<rparr>
           in (s\<lparr>heap := (heap s)(a := room)\<rparr>,
               broadcastPresence e (cs_documentId st) room)))"

text \<open>
  Removal of a connection from its room, as the \<^verbatim>\<open>leave_document\<close> branch and the
  \<^verbatim>\<open>close\<close> handler both do it.
\<close>

definition leaveDocument ::
  "env \<Rightarrow> conn \<Rightarrow> conn_state \<Rightarrow> nat \<Rightarrow> 'd state \<Rightarrow> 'd state \<times> effect list" where
  "leaveDocument e connection st a s =
     (let room = (heap s a)\<lparr>connections := removeAll connection (connections (heap s a)),
                            presence := AList.delete connection (presence (heap s a))\<rparr>
      in (s\<lparr>heap := (heap s)(a := room),
            connectionState := (connectionState s)(connection := None)\<rparr>,
          broadcastPresence e (cs_documentId st) room))"

text \<open>Refreshing the heartbeat of a connection's presence entry, if it has one.\<close>

definition touchHeartbeat :: "env \<Rightarrow> conn \<Rightarrow> nat \<Rightarrow> 'd state \<Rightarrow> 'd state" where
  "touchHeartbeat e connection a s =
     (case map_of (presence (heap s a)) connection of
        None \<Rightarrow> s
      | Some p \<Rightarrow>
          s\<lparr>heap := (heap s)(a := (heap s a)\<lparr>presence :=
               AList.update connection (p\<lparr>p_lastHeartbeat := now e\<rparr>) (presence (heap s a))\<rparr>)\<rparr>)"

text \<open>
  The \<^verbatim>\<open>message\<close> handler. \<open>data\<close> is the result of \<^verbatim>\<open>JSON.parse\<close>, \<open>None\<close> when it
  throws.
\<close>

definition onMessage ::
  "'d lib \<Rightarrow> env \<Rightarrow> conn \<Rightarrow> json option \<Rightarrow> 'd state \<Rightarrow> 'd state \<times> effect list" where
  "onMessage L e connection data s =
     (case data of
        None \<Rightarrow> (s, [])
      | Some message \<Rightarrow>
          (let type = getProp (Some message) ''type''
           in if \<not> truthy type then (s, [])
              else if type = Some (JStr ''join_document'') then
                joinDocument L e connection message s
              else
                (case connectionState s connection of
                   None \<Rightarrow> (s, [Send connection (ErrorFrame ''Not joined'')])
                 | Some st \<Rightarrow>
                     (case map_of (rooms s) (cs_documentId st) of
                        None \<Rightarrow> (s, [])
                      | Some a \<Rightarrow>
                          if type = Some (JStr ''yjs_update'') then
                            yjsUpdate L e connection message st a s
                          else if type = Some (JStr ''cursor_update'') then
                            cursorUpdate e connection message st a s
                          else if type = Some (JStr ''leave_document'') then
                            leaveDocument e connection st a s
                          else if type = Some (JStr ''heartbeat'') then
                            (touchHeartbeat e connection a s, [])
                          else (s, [])))))"

text \<open>The \<^verbatim>\<open>close\<close> handler of a socket.\<close>

definition onClose :: "env \<Rightarrow> conn \<Rightarrow> 'd state \<Rightarrow> 'd state \<times> effect list" where
  "onClose e connection s =
     (case connectionState s connection of
        None \<Rightarrow> (s, [])
      | Some st \<Rightarrow>
          (case map_of (rooms s) (cs_documentId st) of
             None \<Rightarrow> (s\<lparr>connectionState := (connectionState s)(connection := None)\<rparr>, [])
           | Some a \<Rightarrow> leaveDocument e connection st a s))"

text \<open>The \<^verbatim>\<open>pong\<close> handler of a socket.\<close>

definition onPong :: "env \<Rightarrow> conn \<Rightarrow> 'd state \<Rightarrow> 'd state" where
  "onPong e connection s =
     (case connectionState s connection of
        None \<Rightarrow> s
      | Some st \<Rightarrow>
          (case map_of (rooms s) (cs_documentId st) of
             None \<Rightarrow> s
           | Some a \<Rightarrow> touchHeartbeat e connection a s))"

section \<open>Runs of the relay\<close>

text \<open>
  What can happen to the relay: a frame arrives on a socket, a socket closes or answers a
  ping, the sweeper interval or a persist timer fires, the cache client reports an error or
  a connect, and other writers (the HTTP routes, the cache's own eviction) change the stores.
  Each handler runs as one step. The branches of the message handler other than
  \<^verbatim>\<open>join_document\<close>, the \<^verbatim>\<open>close\<close> and \<^verbatim>\<open>pong\<close> handlers and the sweeper contain no
  \<^verbatim>\<open>await\<close>, so for them a step is exactly a run of the handler. A join and a persist
  suspend at their store calls; a step is such a handler run with no other handler in
  between. A run made of these steps is therefore a run of the relay, but the relay has
  further runs, in which handlers overlap; two joins that overlap inside \<^verbatim>\<open>getRoom\<close>
  are written with \<open>joinSuspended\<close> and \<open>joinResumed\<close>.
\<close>

datatype event =
    Message conn "json option"
  | SocketClose conn
  | SocketPong conn
  | Sweep
  | PersistTimer nat
  | RedisError
  | RedisConnect
  | Outside database "string \<rightharpoonup> string"

fun step :: "'d lib \<Rightarrow> env \<Rightarrow> event \<Rightarrow> 'd state \<Rightarrow> 'd state \<times> effect list" where
  "step L e (Message c data) s = onMessage L e c data s"
| "step L e (SocketClose c) s = onClose e c s"
| "step L e (SocketPong c) s = (onPong e c s, [])"
| "step L e Sweep s = sweep e s"
| "step L e (PersistTimer a) s = (persistTimerFired L e a s, [])"
| "step L e RedisError s = (s\<lparr>redisAvailable := False\<rparr>, [])"
| "step L e RedisConnect s = (s\<lparr>redisAvailable := True\<rparr>, [])"
| "step L e (Outside d r) s = (s\<lparr>db := d, redis := r\<rparr>, [])"

text \<open>
  At start-up no room and no connection is registered, no timer is pending, and the cache
  is not yet known to be available. \<open>reachable\<close> collects the states of the runs without
  overlap; it serves to show that a concrete state arises in the relay, and nothing is
  proved by induction over it.
\<close>

definition initial :: "'d state \<Rightarrow> bool" where
  "initial s \<longleftrightarrow>
     rooms s = [] \<and> connectionState s = Map.empty \<and> lastDbPersist s = Map.empty \<and>
     operations s = [] \<and> \<not> redisAvailable s \<and>
     (\<forall>a. persistTimeout (heap s a) = None)"

inductive reachable :: "'d lib \<Rightarrow> 'd state \<Rightarrow> bool" for L :: "'d lib" where
  reach_init: "initial s \<Longrightarrow> reachable L s"
| reach_step: "reachable L s \<Longrightarrow> reachable L (fst (step L e ev s))"

section \<open>A concrete relay to run the model on\<close>

text \<open>
  Stand-ins for the libraries, small enough to compute with: a document is the list of the
  distinct updates applied to it, the empty update is malformed, the codec maps a zero byte
  to \<open>A\<close> and any other byte to \<open>B\<close>, and two tokens verify: \<open>t1\<close> for user \<open>u1\<close> and
  \<open>t2\<close> for user \<open>u2\<close>.
\<close>

definition testLib :: "bytes list lib" where
  "testLib =
     \<lparr>newDoc = [],
      applyUpdate =
        (\<lambda>u d. if u = [] then Threw d else Applied (if u \<in> set d then d else d @ [u])),
      encodeStateAsUpdate = concat,
      bufferToBase64 = map (\<lambda>b. if b = 0 then CHR ''A'' else CHR ''B''),
      bufferFromBase64 =
        (\<lambda>p. case p of JStr t \<Rightarrow> Some (map (\<lambda>c. if c = CHR ''A'' then 0 else 1) t) | _ \<Rightarrow> None),
      jwtVerify =
        (\<lambda>t. if t = JStr ''t1'' then Some \<lparr>claim_userId = Some ''u1'', claim_email = Some ''u1@x''\<rparr>
              else if t = JStr ''t2'' then Some \<lparr>claim_userId = Some ''u2'', claim_email = Some ''u2@x''\<rparr>
              else None),
      prismaTokenFilter = (\<lambda>t. None)\<rparr>"

text \<open>
  User \<open>u1\<close> owns documents \<open>A\<close> and \<open>B\<close>; user \<open>u2\<close> has a viewer share on \<open>A\<close>; the
  share link \<open>k\<close> on \<open>A\<close> expired at time 50.
\<close>

definition testDb :: database where
  "testDb =
     \<lparr>documents = [\<lparr>doc_id = ''A'', doc_ownerId = ''u1''\<rparr>, \<lparr>doc_id = ''B'', doc_ownerId = ''u1''\<rparr>],
      documentShares =
        [\<lparr>share_documentId = ''A'', share_userId = ''u2'', share_permission = ''viewer''\<rparr>],
      documentShareLinks =
        [\<lparr>link_documentId = ''A'', link_token = ''k'', link_permission = ''editor'',
          link_expiresAt = Some 50\<rparr>],
      documentVersions = []\<rparr>"

text \<open>Time 100000, every socket open, the cache client not ready, no store call throws.\<close>

definition testEnv :: env where
  "testEnv =
     \<lparr>now = 100000, isOpen = (\<lambda>c. True), clients = [], redisReady = False,
      redisGetThrows = False, redisSetThrows = None, documentFindThrows = False,
      shareFindThrows = False, linkFindThrows = False, versionFindThrows = False,
      versionCreateThrows = False\<rparr>"

definition emptyRoom :: "bytes list room" where
  "emptyRoom = \<lparr>room_doc = [], connections = [], presence = [], persistTimeout = None\<rparr>"

definition testState :: "bytes list state" where
  "testState =
     \<lparr>heap = (\<lambda>a. emptyRoom), nextRoom = 0, rooms = [], connectionState = Map.empty,
      lastDbPersist = Map.empty, operations = [], redisAvailable = False,
      redis = Map.empty, db = testDb\<rparr>"

definition joinFrame :: "string \<Rightarrow> json \<Rightarrow> json" where
  "joinFrame token documentId =
     JObj [(''type'', JStr ''join_document''), (''token'', JStr token), (''documentId'', documentId)]"

definition updateFrame :: "string \<Rightarrow> json" where
  "updateFrame update = JObj [(''type'', JStr ''yjs_update''), (''update'', JStr update)]"

definition plainFrame :: "string \<Rightarrow> json" where
  "plainFrame type = JObj [(''type'', JStr type)]"

text \<open>A run of the relay: the state after a list of events, each with its environment.\<close>

fun run :: "'d lib \<Rightarrow> (env \<times> event) list \<Rightarrow> 'd state \<Rightarrow> 'd state" where
  "run L [] s = s"
| "run L (x # xs) s = run L xs (fst (step L (fst x) (snd x) s))"

text \<open>Connection 2 (user \<open>u2\<close>, a viewer of \<open>A\<close>) has joined document \<open>A\<close>.\<close>

definition viewerJoined :: "bytes list state" where
  "viewerJoined = run testLib [(testEnv, Message 2 (Some (joinFrame ''t2'' (JStr ''A''))))] testState"

text \<open>Connection 1 (user \<open>u1\<close>, the owner) has joined document \<open>A\<close>.\<close>

definition ownerJoined :: "bytes list state" where
  "ownerJoined = run testLib [(testEnv, Message 1 (Some (joinFrame ''t1'' (JStr ''A''))))] testState"

section \<open>Auxiliary notions for the proofs\<close>

text \<open>
  What the loop of \<^verbatim>\<open>broadcastPresence\<close> maintains about \<^verbatim>\<open>usersByUserId\<close> after the
  entries \<open>seen\<close>: one entry per user id seen, filed under its own user id, taken from the
  entries seen, and with a heartbeat no older than any entry seen of that user.
\<close>

definition dedupInv :: "(string \<times> presenceEntry) list \<Rightarrow> presenceEntry list \<Rightarrow> bool" where
  "dedupInv m seen \<longleftrightarrow>
     distinct (map fst m) \<and>
     (\<forall>k p. map_of m k = Some p \<longrightarrow>
        p_userId p = k \<and> p \<in> set seen \<and>
        (\<forall>q \<in> set seen. p_userId q = k \<longrightarrow> p_lastHeartbeat q \<le> p_lastHeartbeat p)) \<and>
     (\<forall>q \<in> set seen. map_of m (p_userId q) \<noteq> None)"

text \<open>
  A room in which user \<open>u1\<close> holds connections 1 and 2 (heartbeats 5 and 9) and user
  \<open>u2\<close> holds connection 3 (heartbeat 7).
\<close>

definition entryOf :: "string \<Rightarrow> int \<Rightarrow> presenceEntry" where
  "entryOf userId heartbeat =
     \<lparr>p_userId = userId, p_name = JStr userId, p_avatarColor = JStr ''#0ea5e9'',
      p_cursorPosition = JNum 0, p_selectionRange = JObj [(''start'', JNum 0), (''end'', JNum 0)],
      p_isTyping = JBool False, p_lastHeartbeat = heartbeat\<rparr>"

definition twoTabsRoom :: "bytes list room" where
  "twoTabsRoom =
     \<lparr>room_doc = [], connections = [1, 2, 3],
      presence = [(1, entryOf ''u1'' 5), (2, entryOf ''u1'' 9), (3, entryOf ''u2'' 7)],
      persistTimeout = None\<rparr>"



text \<open>The test environment 10 and 11 seconds later.\<close>

definition env110 :: env where
  "env110 = testEnv\<lparr>now := 110000\<rparr>"

definition env111 :: env where
  "env111 = testEnv\<lparr>now := 111000\<rparr>"

text \<open>Connection 1 joins document \<open>A\<close> and then, without leaving, document \<open>B\<close>.\<close>

definition joinedTwice :: "bytes list state" where
  "joinedTwice =
     run testLib [(testEnv, Message 1 (Some (joinFrame ''t1'' (JStr ''A'')))),
                  (testEnv, Message 1 (Some (joinFrame ''t1'' (JStr ''B''))))] testState"

text \<open>Connection 1 joins document \<open>A\<close> and leaves.\<close>

definition joinedAndLeft :: "bytes list state" where
  "joinedAndLeft =
     run testLib [(testEnv, Message 1 (Some (joinFrame ''t1'' (JStr ''A'')))),
                  (testEnv, Message 1 (Some (plainFrame ''leave_document'')))] testState"

section \<open>The libraries on concrete values\<close>

text \<open>
  The libraries on the values that the runs below meet. The codec is base64 as
  \<^verbatim>\<open>Buffer\<close> writes and reads it: three bytes become four characters of the alphabet,
  a shorter tail is padded with \<open>=\<close>, and reading stops at the padding. The texts read
  below hold characters of the alphabet only; the reader here skips any other character.
\<close>

definition base64Alphabet :: string where
  "base64Alphabet = ''ABCDEFGHIJKLMNOPQRSTUVWXYZabcdefghijklmnopqrstuvwxyz0123456789+/''"

fun sextetOf :: "char \<Rightarrow> string \<Rightarrow> nat option" where
  "sextetOf c [] = None"
| "sextetOf c (x # xs) = (if c = x then Some 0 else map_option Suc (sextetOf c xs))"

definition sextets :: "string \<Rightarrow> nat list" where
  "sextets t =
     List.map_filter (\<lambda>c. sextetOf c base64Alphabet) (takeWhile (\<lambda>c. c \<noteq> CHR ''='') t)"

fun fromSextets :: "nat list \<Rightarrow> bytes" where
  "fromSextets (a # b # c # d # r) =
     of_nat (a * 4 + b div 16) # of_nat (b mod 16 * 16 + c div 4) # of_nat (c mod 4 * 64 + d) #
     fromSextets r"
| "fromSextets [a, b, c] = [of_nat (a * 4 + b div 16), of_nat (b mod 16 * 16 + c div 4)]"
| "fromSextets [a, b] = [of_nat (a * 4 + b div 16)]"
| "fromSextets _ = []"

definition sextetChar :: "nat \<Rightarrow> char" where
  "sextetChar n = base64Alphabet ! n"

fun toBase64 :: "nat list \<Rightarrow> string" where
  "toBase64 (a # b # c # r) =
     sextetChar (a div 4) # sextetChar (a mod 4 * 16 + b div 16) #
     sextetChar (b mod 16 * 4 + c div 64) # sextetChar (c mod 64) # toBase64 r"
| "toBase64 [a, b] =
     [sextetChar (a div 4), sextetChar (a mod 4 * 16 + b div 16), sextetChar (b mod 16 * 4),
      CHR ''='']"
| "toBase64 [a] = [sextetChar (a div 4), sextetChar (a mod 4 * 16), CHR ''='', CHR ''='']"
| "toBase64 [] = []"

text \<open>
  The bytes with which Yjs encodes one insertion: one client section, one struct of client
  1 at clock 0, a string item (info byte 4) whose parent is the root type \<open>content\<close>,
  holding the text \<open>a\<close>. A complete update is these bytes followed by the delete set,
  here the single byte 0 of an empty one.
\<close>

definition insertA :: bytes where
  "insertA = [1, 1, 1, 0, 4, 1, 7, 99, 111, 110, 116, 101, 110, 116, 1, 97]"

text \<open>
  Yjs on three updates. The update \<open>0 0\<close> (no struct, empty delete set) is what
  \<^verbatim>\<open>Y.encodeStateAsUpdate\<close> gives for a new document, and applying it changes nothing.
  The update \<open>insertA\<close> followed by 0 applies. The update \<open>insertA\<close> alone is that update
  cut off before its delete set: \<^verbatim>\<open>Y.applyUpdate\<close> reads and integrates the structs
  first and throws when it finds no byte left for the delete set. A document is the list
  of the struct sections integrated, here none or \<open>insertA\<close>; any other update is taken
  to throw at once.
\<close>

definition yLib :: "bytes list lib" where
  "yLib =
     \<lparr>newDoc = [],
      applyUpdate =
        (\<lambda>u d. if u = [0, 0] then Applied d
               else if u = insertA @ [0] then Applied (if insertA \<in> set d then d else d @ [insertA])
               else if u = insertA then Threw (if insertA \<in> set d then d else d @ [insertA])
               else Threw d),
      encodeStateAsUpdate = (\<lambda>d. if d = [] then [0, 0] else concat d @ [0]),
      bufferToBase64 = (\<lambda>b. toBase64 (map unat b)),
      bufferFromBase64 =
        (\<lambda>p. case p of JStr t \<Rightarrow> Some (fromSextets (sextets t)) | _ \<Rightarrow> None),
      jwtVerify = jwtVerify testLib,
      prismaTokenFilter = (\<lambda>t. None)\<rparr>"

section \<open>Further runs and states\<close>

text \<open>
  Connection 1 joins document \<open>A\<close>, sends the update \<open>AAA=\<close> (in base64 the two zero
  bytes of an empty Yjs update) and leaves.
\<close>

definition editedAndLeft :: "bytes list state" where
  "editedAndLeft =
     run yLib [(testEnv, Message 1 (Some (joinFrame ''t1'' (JStr ''A'')))),
               (testEnv, Message 1 (Some (updateFrame ''AAA=''))),
               (testEnv, Message 1 (Some (plainFrame ''leave_document'')))] testState"

text \<open>
  Two joins of document \<open>A\<close> that overlap: the viewer on connection 2 and the owner on
  connection 1 both look for the room before either has registered one. The viewer's join
  resumes first, then the owner's.
\<close>

definition viewerPending :: pendingJoin where
  "viewerPending =
     \<lparr>pj_connection = 2, pj_message = joinFrame ''t2'' (JStr ''A''),
      pj_auth = \<lparr>auth_userId = ''u2'', auth_email = ''u2@x''\<rparr>,
      pj_documentId = ''A'', pj_permission = ''viewer''\<rparr>"

definition ownerPending :: pendingJoin where
  "ownerPending =
     \<lparr>pj_connection = 1, pj_message = joinFrame ''t1'' (JStr ''A''),
      pj_auth = \<lparr>auth_userId = ''u1'', auth_email = ''u1@x''\<rparr>,
      pj_documentId = ''A'', pj_permission = ''owner''\<rparr>"

definition overlappedJoins :: "bytes list state" where
  "overlappedJoins =
     fst (joinResumed testLib testEnv ownerPending
            (fst (joinResumed testLib testEnv viewerPending testState)))"

text \<open>After the overlapping joins the owner leaves, and the sweeper runs.\<close>

definition ownerGone :: "bytes list state" where
  "ownerGone =
     run testLib [(testEnv, Message 1 (Some (plainFrame ''leave_document''))),
                  (testEnv, Sweep)] overlappedJoins"

text \<open>A join frame that carries a share token.\<close>

definition linkJoinFrame :: "string \<Rightarrow> string \<Rightarrow> json \<Rightarrow> json" where
  "linkJoinFrame token documentId shareToken =
     JObj [(''type'', JStr ''join_document''), (''token'', JStr token),
           (''documentId'', JStr documentId), (''shareToken'', shareToken)]"

text \<open>The test store with a live share link \<open>k\<close> on document \<open>B\<close>, expiring at 200000.\<close>

definition linkedDb :: database where
  "linkedDb =
     testDb\<lparr>documentShareLinks :=
       [\<lparr>link_documentId = ''A'', link_token = ''k'', link_permission = ''editor'',
         link_expiresAt = Some 50\<rparr>,
        \<lparr>link_documentId = ''B'', link_token = ''k'', link_permission = ''editor'',
         link_expiresAt = Some 200000\<rparr>]\<rparr>"

text \<open>
  The cache is ready and holds for document \<open>A\<close> the base64 text of the cut update
  \<open>insertA\<close>, and the most recent of the three stored versions of \<open>A\<close> (time 7, stored
  second) holds the same snapshot: the state after a version with that snapshot has been
  saved and restored through the HTTP routes. The two older versions hold the snapshot
  \<open>AAA=\<close> of an empty document.
\<close>

definition cacheReady :: env where
  "cacheReady = testEnv\<lparr>redisReady := True\<rparr>"

definition cutSnapshots :: "bytes list state" where
  "cutSnapshots =
     testState\<lparr>redisAvailable := True,
               redis := [getRedisKey ''A'' \<mapsto> ''AQEBAAQBB2NvbnRlbnQBYQ==''],
               db := testDb\<lparr>documentVersions :=
                 [\<lparr>ver_documentId = ''A'', ver_authorId = ''u1'', ver_summary = [],
                   ver_snapshot = ''AAA='', ver_createdAt = 5\<rparr>,
                  \<lparr>ver_documentId = ''A'', ver_authorId = ''u1'', ver_summary = [],
                   ver_snapshot = ''AQEBAAQBB2NvbnRlbnQBYQ=='', ver_createdAt = 7\<rparr>,
                  \<lparr>ver_documentId = ''A'', ver_authorId = ''u1'', ver_summary = [],
                   ver_snapshot = ''AAA='', ver_createdAt = 6\<rparr>]\<rparr>\<rparr>"




section \<open>Evaluation rules\<close>

lemmas test_defs = testLib_def testDb_def testEnv_def emptyRoom_def testState_def joinFrame_def
  updateFrame_def plainFrame_def

lemmas y_defs = yLib_def insertA_def sextets_def sextetChar_def base64Alphabet_def

lemmas handler_defs = onMessage_def joinDocument_def joinGranted_def getRoom_def loadDoc_def
  restoreFromRedis_def restoreFromDatabase_def restoreFrom_def verifyToken_def getDocumentAccess_def
  findDocument_def findShare_def findShareLink_def findLatestVersion_def linkValid_def tokenFilter_def
  broadcastPresence_def broadcast_def presenceUsers_def dedupStep_def setAdd_def encodeUpdate_def
  decodeUpdate_def yjsUpdate_def cursorUpdate_def leaveDocument_def touchHeartbeat_def
  schedulePersist_def recordOperation_def getRedisKey_def

lemma reachable_run: "reachable L s \<Longrightarrow> reachable L (run L xs s)"
  by (induction xs arbitrary: s) (auto intro: reachable.reach_step)

lemma initial_testState: "initial testState"
  by (simp add: initial_def testState_def emptyRoom_def)

lemma viewerJoined_eq:
  "viewerJoined =
     testState\<lparr>heap := (heap testState)(0 :=
                  \<lparr>room_doc = [], connections = [2],
                   presence = [(2, \<lparr>p_userId = ''u2'', p_name = JStr ''u2@x'',
                                   p_avatarColor = JStr ''#0ea5e9'', p_cursorPosition = JNum 0,
                                   p_selectionRange = JObj [(''start'', JNum 0), (''end'', JNum 0)],
                                   p_isTyping = JBool False, p_lastHeartbeat = 100000\<rparr>)],
                   persistTimeout = None\<rparr>),
               nextRoom := 1, rooms := [(''A'', 0)],
               connectionState := [2 \<mapsto> \<lparr>cs_documentId = ''A'', cs_userId = ''u2'',
                                          cs_permission = ''viewer''\<rparr>]\<rparr>"
  by (simp add: viewerJoined_def test_defs handler_defs Let_def)

lemma ownerJoined_eq:
  "ownerJoined =
     testState\<lparr>heap := (heap testState)(0 :=
                  \<lparr>room_doc = [], connections = [1],
                   presence = [(1, \<lparr>p_userId = ''u1'', p_name = JStr ''u1@x'',
                                   p_avatarColor = JStr ''#0ea5e9'', p_cursorPosition = JNum 0,
                                   p_selectionRange = JObj [(''start'', JNum 0), (''end'', JNum 0)],
                                   p_isTyping = JBool False, p_lastHeartbeat = 100000\<rparr>)],
                   persistTimeout = None\<rparr>),
               nextRoom := 1, rooms := [(''A'', 0)],
               connectionState := [1 \<mapsto> \<lparr>cs_documentId = ''A'', cs_userId = ''u1'',
                                          cs_permission = ''owner''\<rparr>]\<rparr>"
  by (simp add: ownerJoined_def test_defs handler_defs Let_def)

lemma reachable_viewerJoined: "reachable testLib viewerJoined"
  unfolding viewerJoined_def by (rule reachable_run) (rule reachable.reach_init, rule initial_testState)

lemma reachable_ownerJoined: "reachable testLib ownerJoined"
  unfolding ownerJoined_def by (rule reachable_run) (rule reachable.reach_init, rule initial_testState)

text \<open>A join that finds no room and resumes at once is the join handler run in one piece.\<close>

lemma joinResumed_at_once:
  assumes "joinSuspended L e c message s = Some p"
  shows "joinDocument L e c message s = joinResumed L e p s"
  using assms
  by (auto simp: joinSuspended_def joinDocument_def joinGranted_def joinResumed_def getRoom_def
      setAdd_def Let_def split: option.splits access.splits json.splits if_splits)

text \<open>The state after the two overlapping joins, and after the owner left and the sweeper ran.\<close>

lemma pending_joins:
  "joinSuspended testLib testEnv 2 (joinFrame ''t2'' (JStr ''A'')) testState = Some viewerPending \<and>
   joinSuspended testLib testEnv 1 (joinFrame ''t1'' (JStr ''A'')) testState = Some ownerPending"
  by (simp add: joinSuspended_def viewerPending_def ownerPending_def test_defs verifyToken_def
      getDocumentAccess_def findDocument_def findShare_def Let_def)

lemma overlappedJoins_eq:
  "overlappedJoins =
     testState\<lparr>heap := (heap testState)
                 (0 := \<lparr>room_doc = [], connections = [2],
                        presence = [(2, \<lparr>p_userId = ''u2'', p_name = JStr ''u2@x'',
                                   p_avatarColor = JStr ''#0ea5e9'', p_cursorPosition = JNum 0,
                                   p_selectionRange = JObj [(''start'', JNum 0), (''end'', JNum 0)],
                                   p_isTyping = JBool False, p_lastHeartbeat = 100000\<rparr>)],
                        persistTimeout = None\<rparr>,
                  Suc 0 := \<lparr>room_doc = [], connections = [1],
                        presence = [(1, \<lparr>p_userId = ''u1'', p_name = JStr ''u1@x'',
                                   p_avatarColor = JStr ''#0ea5e9'', p_cursorPosition = JNum 0,
                                   p_selectionRange = JObj [(''start'', JNum 0), (''end'', JNum 0)],
                                   p_isTyping = JBool False, p_lastHeartbeat = 100000\<rparr>)],
                        persistTimeout = None\<rparr>),
               nextRoom := 2, rooms := [(''A'', 1)],
               connectionState :=
                 [2 \<mapsto> \<lparr>cs_documentId = ''A'', cs_userId = ''u2'', cs_permission = ''viewer''\<rparr>,
                  1 \<mapsto> \<lparr>cs_documentId = ''A'', cs_userId = ''u1'', cs_permission = ''owner''\<rparr>]\<rparr>"
  by (simp add: overlappedJoins_def joinResumed_def viewerPending_def ownerPending_def
      test_defs loadDoc_def restoreFromRedis_def restoreFromDatabase_def findLatestVersion_def
      Let_def numeral_2_eq_2)

section \<open>Access resolution\<close>

lemma granted_needs_string_id:
  "getDocumentAccess L e d documentId userId tok = Some (Granted p) \<Longrightarrow>
   \<exists>i. documentId = Some (JStr i) \<and> i \<noteq> []"
  by (auto simp: getDocumentAccess_def split: option.splits json.splits if_splits)

text \<open>
  For a document that is found and a share token that is a string, the resolver answers in
  a fixed order: the owner is granted \<open>owner\<close>; anyone else with an explicit share gets
  that share's permission; anyone else gets the permission of the first share link of this
  document whose token equals the presented one and whose expiry is absent or strictly in
  the future; with no such link the answer is \<open>noAccess\<close>. A throwing share or link query
  rejects the call.
\<close>

lemma getDocumentAccess_string_token:
  assumes "\<not> documentFindThrows e" and "findDocument d i = Some document" and "i \<noteq> []"
  shows "getDocumentAccess L e d (Some (JStr i)) userId (JStr t) =
           (if doc_ownerId document = userId then Some (Granted ''owner'')
            else if shareFindThrows e then None
            else
              (case findShare d i userId of
                 Some share \<Rightarrow> Some (Granted (share_permission share))
               | None \<Rightarrow>
                   if t = [] then Some (Denied noAccess)
                   else if linkFindThrows e then None
                   else
                     (case find (\<lambda>l. link_documentId l = i \<and> link_token l = t \<and>
                                      (\<forall>x. link_expiresAt l = Some x \<longrightarrow> now e < x))
                             (documentShareLinks d) of
                        Some link \<Rightarrow> Some (Granted (link_permission link))
                      | None \<Rightarrow> Some (Denied noAccess))))"
proof -
  have "linkValid (now e) i (\<lambda>x. x = t) =
          (\<lambda>l. link_documentId l = i \<and> link_token l = t \<and>
               (\<forall>x. link_expiresAt l = Some x \<longrightarrow> now e < x))"
    by (auto simp: linkValid_def fun_eq_iff split: option.splits)
  with assms show ?thesis
    by (simp add: getDocumentAccess_def tokenFilter_def findShareLink_def split: option.splits)
qed

text \<open>
  C3 fails for a share token that is not a string. User \<open>u2\<close>, who neither owns document
  \<open>B\<close> nor has a share on it, joins \<open>B\<close> with the share token 5, which matches no link.
  Prisma refuses the filter, the link query is outside any \<^verbatim>\<open>try\<close>, and the resolver
  rejects instead of answering \<open>noAccess\<close>: the join handler sends no frame and does not
  close the socket. With the unknown string token \<open>zz\<close> the answer is \<open>noAccess\<close>, and with
  the token \<open>k\<close> of a live link it is that link's permission.
\<close>

theorem non_string_share_token_rejects:
  "verifyToken testLib (JStr ''t2'') = Some \<lparr>auth_userId = ''u2'', auth_email = ''u2@x''\<rparr> \<and>
   findDocument linkedDb ''B'' = Some \<lparr>doc_id = ''B'', doc_ownerId = ''u1''\<rparr> \<and>
   findShare linkedDb ''B'' ''u2'' = None \<and>
   getDocumentAccess testLib testEnv linkedDb (Some (JStr ''B'')) ''u2'' (JNum 5) = None \<and>
   onMessage testLib testEnv 2 (Some (linkJoinFrame ''t2'' ''B'' (JNum 5)))
     (testState\<lparr>db := linkedDb\<rparr>) = (testState\<lparr>db := linkedDb\<rparr>, [UnhandledRejection]) \<and>
   getDocumentAccess testLib testEnv linkedDb (Some (JStr ''B'')) ''u2'' (JStr ''zz'') =
     Some (Denied noAccess) \<and>
   getDocumentAccess testLib testEnv linkedDb (Some (JStr ''B'')) ''u2'' (JStr ''k'') =
     Some (Granted ''editor'')"
  by (simp add: verifyToken_def getDocumentAccess_def findDocument_def findShare_def
      findShareLink_def linkValid_def tokenFilter_def onMessage_def joinDocument_def
      linkJoinFrame_def linkedDb_def testLib_def testDb_def testEnv_def testState_def Let_def)

section \<open>Updates without a payload\<close>

text \<open>
  C10. A \<open>yjs_update\<close> frame without an \<open>update\<close> field, from a joined connection of any
  permission, changes nothing in the relay state (document, timers, operation counter) and
  produces no frame for anybody, the sender included.
\<close>

theorem missing_update_dropped:
  assumes "connectionState s c = Some st"
    and "getProp (Some message) ''type'' = Some (JStr ''yjs_update'')"
    and "getProp (Some message) ''update'' = None"
  shows "onMessage L e c (Some message) s = (s, [])"
  using assms by (simp add: onMessage_def yjsUpdate_def Let_def split: option.splits)

text \<open>The viewer of the test relay sends such a frame.\<close>

theorem missing_update_dropped_witness:
  "connectionState viewerJoined 2 =
     Some \<lparr>cs_documentId = ''A'', cs_userId = ''u2'', cs_permission = ''viewer''\<rparr> \<and>
   onMessage testLib testEnv 2 (Some (plainFrame ''yjs_update'')) viewerJoined = (viewerJoined, [])"
proof -
  have h1: "connectionState viewerJoined 2 =
     Some \<lparr>cs_documentId = ''A'', cs_userId = ''u2'', cs_permission = ''viewer''\<rparr>"
    by (simp add: viewerJoined_eq)
  have h2: "getProp (Some (plainFrame ''yjs_update'')) ''type'' = Some (JStr ''yjs_update'')"
    by (simp add: plainFrame_def)
  have h3: "getProp (Some (plainFrame ''yjs_update'')) ''update'' = None"
    by (simp add: plainFrame_def)
  from missing_update_dropped [OF h1 h2 h3] h1 show ?thesis by blast
qed

section \<open>Presence broadcasts\<close>

lemma dedupStep_inv:
  assumes "dedupInv m seen"
  shows "dedupInv (dedupStep m p) (seen @ [p])"
proof -
  from assms have dist: "distinct (map fst m)"
    and ent: "\<And>k x. map_of m k = Some x \<Longrightarrow>
                p_userId x = k \<and> x \<in> set seen \<and>
                (\<forall>q \<in> set seen. p_userId q = k \<longrightarrow> p_lastHeartbeat q \<le> p_lastHeartbeat x)"
    and cov: "\<And>q. q \<in> set seen \<Longrightarrow> map_of m (p_userId q) \<noteq> None"
    unfolding dedupInv_def by blast+
  let ?u = "AList.update (p_userId p) p m"
  have upd: "dedupInv ?u (seen @ [p])"
    if newer: "\<And>x. map_of m (p_userId p) = Some x \<Longrightarrow> p_lastHeartbeat x < p_lastHeartbeat p"
  proof -
    have m: "map_of ?u = (map_of m)(p_userId p \<mapsto> p)" by (simp add: update_conv')
    have d: "distinct (map fst ?u)" using dist by (simp add: distinct_update)
    have e: "p_userId x = k \<and> x \<in> set (seen @ [p]) \<and>
             (\<forall>q \<in> set (seen @ [p]). p_userId q = k \<longrightarrow> p_lastHeartbeat q \<le> p_lastHeartbeat x)"
      if "map_of ?u k = Some x" for k x
    proof (cases "k = p_userId p")
      case True
      with that m have x: "x = p" by simp
      have "p_lastHeartbeat q \<le> p_lastHeartbeat p" if q: "q \<in> set seen" "p_userId q = p_userId p" for q
      proof -
        from cov [OF q(1)] q(2) obtain y where y: "map_of m (p_userId p) = Some y" by auto
        from ent [OF y] q have "p_lastHeartbeat q \<le> p_lastHeartbeat y" by blast
        with newer [OF y] show ?thesis by simp
      qed
      with x True show ?thesis by auto
    next
      case False
      with that m have "map_of m k = Some x" by simp
      from ent [OF this] False show ?thesis by auto
    qed
    have c: "map_of ?u (p_userId q) \<noteq> None" if "q \<in> set (seen @ [p])" for q
      using that cov m by auto
    show ?thesis unfolding dedupInv_def using d e c by blast
  qed
  have keep: "dedupInv m (seen @ [p])"
    if old: "map_of m (p_userId p) = Some x" "\<not> p_lastHeartbeat x < p_lastHeartbeat p" for x
  proof -
    have e: "p_userId y = k \<and> y \<in> set (seen @ [p]) \<and>
             (\<forall>q \<in> set (seen @ [p]). p_userId q = k \<longrightarrow> p_lastHeartbeat q \<le> p_lastHeartbeat y)"
      if "map_of m k = Some y" for k y
    proof -
      from ent [OF that] have a: "p_userId y = k" "y \<in> set seen"
        "\<forall>q \<in> set seen. p_userId q = k \<longrightarrow> p_lastHeartbeat q \<le> p_lastHeartbeat y" by blast+
      have "p_lastHeartbeat p \<le> p_lastHeartbeat y" if "p_userId p = k"
        using that old \<open>map_of m k = Some y\<close> by simp
      with a show ?thesis by auto
    qed
    have c: "map_of m (p_userId q) \<noteq> None" if "q \<in> set (seen @ [p])" for q
      using that cov old by auto
    show ?thesis unfolding dedupInv_def using dist e c by blast
  qed
  show ?thesis
  proof (cases "map_of m (p_userId p)")
    case None
    then have "dedupStep m p = ?u" by (simp add: dedupStep_def)
    with upd None show ?thesis by simp
  next
    case (Some x)
    show ?thesis
    proof (cases "p_lastHeartbeat x < p_lastHeartbeat p")
      case True
      with Some have "dedupStep m p = ?u" by (simp add: dedupStep_def)
      with upd Some True show ?thesis by simp
    next
      case False
      with Some have "dedupStep m p = m" by (simp add: dedupStep_def)
      with keep [OF Some False] show ?thesis by simp
    qed
  qed
qed

lemma dedup_fold_inv:
  "dedupInv m seen \<Longrightarrow> dedupInv (foldl dedupStep m ps) (seen @ ps)"
proof (induction ps arbitrary: m seen)
  case Nil
  then show ?case by simp
next
  case (Cons p ps)
  from Cons.IH [OF dedupStep_inv [OF Cons.prems, of p]] show ?case by simp
qed

lemma presenceUsers_props:
  "distinct (map p_userId (presenceUsers pres)) \<and>
   (\<forall>u \<in> set (presenceUsers pres).
      u \<in> snd ` set pres \<and>
      (\<forall>q \<in> snd ` set pres. p_userId q = p_userId u \<longrightarrow> p_lastHeartbeat q \<le> p_lastHeartbeat u)) \<and>
   p_userId ` set (presenceUsers pres) = p_userId ` snd ` set pres"
proof -
  let ?m = "foldl dedupStep [] (map snd pres)"
  have "dedupInv [] []" by (simp add: dedupInv_def)
  from dedup_fold_inv [OF this, of "map snd pres"] have inv: "dedupInv ?m (map snd pres)" by simp
  have sm: "set (map snd pres) = snd ` set pres" by simp
  from inv have dist: "distinct (map fst ?m)"
    and ent0: "\<And>k x. map_of ?m k = Some x \<Longrightarrow>
                p_userId x = k \<and> x \<in> set (map snd pres) \<and>
                (\<forall>q \<in> set (map snd pres). p_userId q = k \<longrightarrow> p_lastHeartbeat q \<le> p_lastHeartbeat x)"
    and cov0: "\<And>q. q \<in> set (map snd pres) \<Longrightarrow> map_of ?m (p_userId q) \<noteq> None"
    unfolding dedupInv_def by blast+
  have ent: "p_userId x = k \<and> x \<in> snd ` set pres \<and>
                (\<forall>q \<in> snd ` set pres. p_userId q = k \<longrightarrow> p_lastHeartbeat q \<le> p_lastHeartbeat x)"
    if "map_of ?m k = Some x" for k x
    using ent0 [OF that] unfolding sm .
  have cov: "map_of ?m (p_userId q) \<noteq> None" if "q \<in> snd ` set pres" for q
    using cov0 [of q] that unfolding sm .
  have key: "p_userId (snd kp) = fst kp" if "kp \<in> set ?m" for kp
  proof -
    from that dist have "map_of ?m (fst kp) = Some (snd kp)" by simp
    from ent [OF this] show ?thesis by simp
  qed
  then have eq: "map p_userId (presenceUsers pres) = map fst ?m"
    by (simp add: presenceUsers_def)
  have d: "distinct (map p_userId (presenceUsers pres))"
    using dist unfolding eq .
  have e: "u \<in> snd ` set pres \<and>
      (\<forall>q \<in> snd ` set pres. p_userId q = p_userId u \<longrightarrow> p_lastHeartbeat q \<le> p_lastHeartbeat u)"
    if "u \<in> set (presenceUsers pres)" for u
  proof -
    from that obtain k where "(k, u) \<in> set ?m" by (auto simp: presenceUsers_def)
    with dist have "map_of ?m k = Some u" by simp
    from ent [OF this] show ?thesis by auto
  qed
  have c: "p_userId ` set (presenceUsers pres) = p_userId ` snd ` set pres"
  proof
    show "p_userId ` set (presenceUsers pres) \<subseteq> p_userId ` snd ` set pres"
      using e by blast
    show "p_userId ` snd ` set pres \<subseteq> p_userId ` set (presenceUsers pres)"
    proof
      fix k assume "k \<in> p_userId ` snd ` set pres"
      then obtain q where q: "q \<in> snd ` set pres" "k = p_userId q" by blast
      from cov [OF q(1)] obtain x where x: "map_of ?m (p_userId q) = Some x" by auto
      then have "(p_userId q, x) \<in> set ?m" by (rule map_of_SomeD)
      then have "x \<in> set (presenceUsers pres)" by (force simp: presenceUsers_def)
      moreover from ent [OF x] have "p_userId x = k" using q by simp
      ultimately show "k \<in> p_userId ` set (presenceUsers pres)" by blast
    qed
  qed
  from d e c show ?thesis by blast
qed

text \<open>
  C9. Every \<open>presence_update\<close> frame that \<open>broadcastPresence\<close> sends lists pairwise distinct
  user ids; each listed entry is a presence entry of the room whose heartbeat is the
  greatest among the room's entries of that user; and every user with an entry is listed.
\<close>

theorem presence_update_deduplicated:
  assumes "Send c (PresenceUpdate d users) \<in> set (broadcastPresence e documentId room)"
  shows "distinct (map p_userId users) \<and>
         (\<forall>u \<in> set users.
            u \<in> snd ` set (presence room) \<and>
            (\<forall>q \<in> snd ` set (presence room).
               p_userId q = p_userId u \<longrightarrow> p_lastHeartbeat q \<le> p_lastHeartbeat u)) \<and>
         p_userId ` set users = p_userId ` snd ` set (presence room)"
proof -
  from assms have "users = presenceUsers (presence room)"
    by (auto simp: broadcastPresence_def broadcast_def)
  with presenceUsers_props [of "presence room"] show ?thesis by simp
qed

text \<open>
  In the room with two tabs of \<open>u1\<close>, connection 1 is sent the entry of \<open>u1\<close> with
  heartbeat 9 and the entry of \<open>u2\<close>.
\<close>

theorem presence_update_deduplicated_witness:
  "Send 1 (PresenceUpdate ''A'' [entryOf ''u1'' 9, entryOf ''u2'' 7])
     \<in> set (broadcastPresence testEnv ''A'' twoTabsRoom) \<and>
   distinct (map p_userId [entryOf ''u1'' 9, entryOf ''u2'' 7]) \<and>
   p_userId ` set [entryOf ''u1'' 9, entryOf ''u2'' 7] = p_userId ` snd ` set (presence twoTabsRoom)"
proof -
  have h: "Send 1 (PresenceUpdate ''A'' [entryOf ''u1'' 9, entryOf ''u2'' 7])
             \<in> set (broadcastPresence testEnv ''A'' twoTabsRoom)"
    by (simp add: broadcastPresence_def broadcast_def presenceUsers_def dedupStep_def
        twoTabsRoom_def entryOf_def testEnv_def)
  from presence_update_deduplicated [OF h] h show ?thesis by blast
qed

section \<open>Updates from viewers\<close>

text \<open>
  C1, as amended. Take any state of the relay and a connection that \<^verbatim>\<open>connectionState\<close>
  records with permission \<open>viewer\<close>, and let it send a \<open>yjs_update\<close> frame. If the registry
  holds a room for its document and the \<open>update\<close> field is truthy, the relay state is left
  as it was (so the room's document is unchanged and no persist is scheduled) and the only
  effect is one \<open>error\<close> frame \<open>Read-only access\<close> to the sender: no broadcast, and the
  socket is not closed. If the \<open>update\<close> field is absent or falsy (null, the empty string,
  zero, false), or the registry holds no room for the document, the state is left as it
  was and there is no effect at all.
\<close>

theorem viewer_update_refused:
  assumes "connectionState s c = Some st" and "cs_permission st = ''viewer''"
    and "getProp (Some message) ''type'' = Some (JStr ''yjs_update'')"
  shows "(truthy (getProp (Some message) ''update'') \<and>
          map_of (rooms s) (cs_documentId st) \<noteq> None \<longrightarrow>
            onMessage L e c (Some message) s =
              (s, [Send c (ErrorFrame ''Read-only access'')])) \<and>
         (\<not> truthy (getProp (Some message) ''update'') \<or>
          map_of (rooms s) (cs_documentId st) = None \<longrightarrow>
            onMessage L e c (Some message) s = (s, []))"
proof -
  have refused: "onMessage L e c (Some message) s =
                   (s, [Send c (ErrorFrame ''Read-only access'')])"
    if t: "truthy (getProp (Some message) ''update'')"
      and r: "map_of (rooms s) (cs_documentId st) \<noteq> None"
  proof -
    from r obtain a where a: "map_of (rooms s) (cs_documentId st) = Some a" by blast
    from t obtain upd where u: "getProp (Some message) ''update'' = Some upd"
      by (cases "getProp (Some message) ''update''") auto
    with t assms a show ?thesis
      by (simp add: onMessage_def yjsUpdate_def Let_def)
  qed
  have unregistered: "onMessage L e c (Some message) s = (s, [])"
    if "map_of (rooms s) (cs_documentId st) = None"
    using that assms by (simp add: onMessage_def Let_def)
  have dropped: "onMessage L e c (Some message) s = (s, [])"
    if f: "\<not> truthy (getProp (Some message) ''update'')"
  proof (cases "map_of (rooms s) (cs_documentId st)")
    case None
    then show ?thesis by (rule unregistered)
  next
    case (Some a)
    show ?thesis
    proof (cases "getProp (Some message) ''update''")
      case None
      with Some assms show ?thesis by (simp add: onMessage_def yjsUpdate_def Let_def)
    next
      case u: (Some upd)
      with f have "\<not> truthy (Some upd)" by simp
      with u Some assms show ?thesis by (simp add: onMessage_def yjsUpdate_def Let_def)
    qed
  qed
  from refused dropped unregistered show ?thesis by blast
qed

lemma ownerGone_eq:
  "ownerGone =
     overlappedJoins\<lparr>heap := (heap overlappedJoins)
                       (Suc 0 := \<lparr>room_doc = [], connections = [], presence = [],
                                  persistTimeout = None\<rparr>),
                     rooms := [],
                     connectionState :=
                       [2 \<mapsto> \<lparr>cs_documentId = ''A'', cs_userId = ''u2'',
                               cs_permission = ''viewer''\<rparr>]\<rparr>"
  by (simp add: ownerGone_def overlappedJoins_eq test_defs handler_defs sweep_def sweepStep_def
      cleanupRoom_def evictStep_def heartbeatTimeoutMs_def Let_def
      fun_eq_iff)

text \<open>
  The viewer of the test relay sends the update \<open>AAA=\<close> and is refused; it sends the
  updates null, zero and false and gets nothing. After the overlapping joins, the owner's
  leave and the sweeper pass, the registry holds no room for the viewer's document, and
  the same update gets nothing.
\<close>

theorem viewer_update_refused_witness:
  "connectionState viewerJoined 2 =
     Some \<lparr>cs_documentId = ''A'', cs_userId = ''u2'', cs_permission = ''viewer''\<rparr> \<and>
   map_of (rooms viewerJoined) ''A'' = Some 0 \<and>
   onMessage testLib testEnv 2 (Some (updateFrame ''AAA='')) viewerJoined =
     (viewerJoined, [Send 2 (ErrorFrame ''Read-only access'')]) \<and>
   onMessage testLib testEnv 2
     (Some (JObj [(''type'', JStr ''yjs_update''), (''update'', JNull)])) viewerJoined =
     (viewerJoined, []) \<and>
   onMessage testLib testEnv 2
     (Some (JObj [(''type'', JStr ''yjs_update''), (''update'', JNum 0)])) viewerJoined =
     (viewerJoined, []) \<and>
   onMessage testLib testEnv 2
     (Some (JObj [(''type'', JStr ''yjs_update''), (''update'', JBool False)])) viewerJoined =
     (viewerJoined, []) \<and>
   connectionState ownerGone 2 =
     Some \<lparr>cs_documentId = ''A'', cs_userId = ''u2'', cs_permission = ''viewer''\<rparr> \<and>
   map_of (rooms ownerGone) ''A'' = None \<and>
   onMessage testLib testEnv 2 (Some (updateFrame ''AAA='')) ownerGone = (ownerGone, [])"
proof -
  let ?st = "\<lparr>cs_documentId = ''A'', cs_userId = ''u2'', cs_permission = ''viewer''\<rparr>"
  have h1: "connectionState viewerJoined 2 = Some ?st"
    by (simp add: viewerJoined_eq)
  have h2: "cs_permission ?st = ''viewer''" by simp
  have r: "map_of (rooms viewerJoined) ''A'' = Some 0"
    by (simp add: viewerJoined_eq)
  have h3: "getProp (Some (updateFrame ''AAA='')) ''type'' = Some (JStr ''yjs_update'')"
    by (simp add: updateFrame_def)
  have t: "truthy (getProp (Some (updateFrame ''AAA='')) ''update'')"
    by (simp add: updateFrame_def)
  from viewer_update_refused [OF h1 h2 h3, of testLib testEnv] t r
  have a: "onMessage testLib testEnv 2 (Some (updateFrame ''AAA='')) viewerJoined =
     (viewerJoined, [Send 2 (ErrorFrame ''Read-only access'')])" by simp
  have b: "onMessage testLib testEnv 2
             (Some (JObj [(''type'', JStr ''yjs_update''), (''update'', v)])) viewerJoined =
           (viewerJoined, [])" if "\<not> truthy (Some v)" for v
  proof -
    let ?m = "JObj [(''type'', JStr ''yjs_update''), (''update'', v)]"
    have k3: "getProp (Some ?m) ''type'' = Some (JStr ''yjs_update'')" by simp
    have "\<not> truthy (getProp (Some ?m) ''update'')" using that by simp
    with viewer_update_refused [OF h1 h2 k3, of testLib testEnv] show ?thesis by blast
  qed
  have g1: "connectionState ownerGone 2 = Some ?st"
    by (simp add: ownerGone_eq overlappedJoins_eq)
  have g2: "map_of (rooms ownerGone) ''A'' = None"
    by (simp add: ownerGone_eq)
  from viewer_update_refused [OF g1 h2 h3, of testLib testEnv] g2
  have c: "onMessage testLib testEnv 2 (Some (updateFrame ''AAA='')) ownerGone = (ownerGone, [])"
    by simp
  from h1 r a b [of JNull] b [of "JNum 0"] b [of "JBool False"] g1 g2 c show ?thesis by simp
qed

text \<open>
  C1 as stated fails twice. The viewer of the test relay sends a \<open>yjs_update\<close> frame whose
  \<open>update\<close> is the empty string and receives nothing at all. And after two joins of \<open>A\<close>
  that overlap (the viewer's and the owner's, each finding no room yet), the owner's leave
  and a sweeper pass, the viewer is still recorded as joined to \<open>A\<close> while the registry
  holds no room for \<open>A\<close>: its update \<open>AAA=\<close> gets no answer either.
\<close>

theorem viewer_empty_update_counterexample:
  "reachable testLib viewerJoined \<and>
   connectionState viewerJoined 2 =
     Some \<lparr>cs_documentId = ''A'', cs_userId = ''u2'', cs_permission = ''viewer''\<rparr> \<and>
   getProp (Some (updateFrame '''')) ''type'' = Some (JStr ''yjs_update'') \<and>
   snd (onMessage testLib testEnv 2 (Some (updateFrame '''')) viewerJoined) = [] \<and>
   joinSuspended testLib testEnv 2 (joinFrame ''t2'' (JStr ''A'')) testState = Some viewerPending \<and>
   joinSuspended testLib testEnv 1 (joinFrame ''t1'' (JStr ''A'')) testState = Some ownerPending \<and>
   connectionState ownerGone 2 =
     Some \<lparr>cs_documentId = ''A'', cs_userId = ''u2'', cs_permission = ''viewer''\<rparr> \<and>
   connections (heap ownerGone 0) = [2] \<and>
   rooms ownerGone = [] \<and>
   onMessage testLib testEnv 2 (Some (updateFrame ''AAA='')) ownerGone = (ownerGone, [])"
proof -
  have a: "connectionState viewerJoined 2 =
     Some \<lparr>cs_documentId = ''A'', cs_userId = ''u2'', cs_permission = ''viewer''\<rparr> \<and>
   getProp (Some (updateFrame '''')) ''type'' = Some (JStr ''yjs_update'') \<and>
   snd (onMessage testLib testEnv 2 (Some (updateFrame '''')) viewerJoined) = []"
    by (simp add: viewerJoined_eq updateFrame_def onMessage_def yjsUpdate_def Let_def)
  have b: "connectionState ownerGone 2 =
     Some \<lparr>cs_documentId = ''A'', cs_userId = ''u2'', cs_permission = ''viewer''\<rparr> \<and>
   connections (heap ownerGone 0) = [2] \<and>
   rooms ownerGone = []"
    by (simp add: ownerGone_eq overlappedJoins_eq)
  then have c: "onMessage testLib testEnv 2 (Some (updateFrame ''AAA='')) ownerGone = (ownerGone, [])"
    by (simp add: onMessage_def updateFrame_def Let_def)
  from reachable_viewerJoined a pending_joins b c show ?thesis by blast
qed

section \<open>Joins with a bad document id\<close>

text \<open>
  C7, as amended. A \<open>join_document\<close> frame whose \<open>documentId\<close> is empty (absent, null,
  the empty string, zero or false) is answered with the single error frame \<open>Unauthorized\<close>
  and the socket is closed. When the token is present and verifies, a \<open>documentId\<close> that is
  truthy but not a string, and a non-empty string that names no document (or whose lookup
  throws), are answered with the single error frame \<open>Document not found\<close> and the socket is
  closed. The relay state is unchanged in all three cases.
\<close>

theorem join_bad_documentId:
  assumes "getProp (Some message) ''type'' = Some (JStr ''join_document'')"
    and "token = nullish (getProp (Some message) ''token'') JNull"
    and "documentId = getProp (Some message) ''documentId''"
  shows "(\<not> truthy documentId \<longrightarrow>
            onMessage L e c (Some message) s =
              (s, [Send c (ErrorFrame ''Unauthorized''), Close c])) \<and>
         (truthy documentId \<and> (\<forall>i. documentId \<noteq> Some (JStr i)) \<and>
          truthy (Some token) \<and> verifyToken L token = Some au \<longrightarrow>
            onMessage L e c (Some message) s =
              (s, [Send c (ErrorFrame ''Document not found''), Close c])) \<and>
         (\<forall>i. documentId = Some (JStr i) \<and> i \<noteq> [] \<and>
              (documentFindThrows e \<or> findDocument (db s) i = None) \<and>
              truthy (Some token) \<and> verifyToken L token = Some au \<longrightarrow>
            onMessage L e c (Some message) s =
              (s, [Send c (ErrorFrame ''Document not found''), Close c]))"
proof (intro conjI impI allI)
  assume "\<not> truthy documentId"
  with assms show "onMessage L e c (Some message) s =
      (s, [Send c (ErrorFrame ''Unauthorized''), Close c])"
    by (simp add: onMessage_def joinDocument_def Let_def)
next
  assume a: "truthy documentId \<and> (\<forall>i. documentId \<noteq> Some (JStr i)) \<and>
          truthy (Some token) \<and> verifyToken L token = Some au"
  then have "getDocumentAccess L e (db s) documentId (auth_userId au)
               (nullish (getProp (Some message) ''shareToken'') JNull) = Some (Denied invalidId)"
    by (auto simp: getDocumentAccess_def split: option.splits json.splits)
  with assms a show "onMessage L e c (Some message) s =
      (s, [Send c (ErrorFrame ''Document not found''), Close c])"
    by (simp add: onMessage_def joinDocument_def Let_def)
next
  fix i
  assume a: "documentId = Some (JStr i) \<and> i \<noteq> [] \<and>
              (documentFindThrows e \<or> findDocument (db s) i = None) \<and>
              truthy (Some token) \<and> verifyToken L token = Some au"
  with assms(3) have g: "getProp (Some message) ''documentId'' = Some (JStr i)" by simp
  from a have t: "truthy (getProp (Some message) ''documentId'')" by (simp add: g)
  from a have "getDocumentAccess L e (db s) (Some (JStr i)) (auth_userId au)
               (nullish (getProp (Some message) ''shareToken'') JNull) = Some (Denied notFound)"
    by (auto simp: getDocumentAccess_def)
  with assms(1,2) a g t show "onMessage L e c (Some message) s =
      (s, [Send c (ErrorFrame ''Document not found''), Close c])"
    by (simp add: onMessage_def joinDocument_def Let_def)
qed

text \<open>User \<open>u1\<close> asks to join the document whose id is the number 5.\<close>

theorem join_bad_documentId_witness:
  "getProp (Some (joinFrame ''t1'' (JNum 5))) ''documentId'' = Some (JNum 5) \<and>
   verifyToken testLib (JStr ''t1'') = Some \<lparr>auth_userId = ''u1'', auth_email = ''u1@x''\<rparr> \<and>
   onMessage testLib testEnv 1 (Some (joinFrame ''t1'' (JNum 5))) testState =
     (testState, [Send 1 (ErrorFrame ''Document not found''), Close 1])"
proof -
  let ?m = "joinFrame ''t1'' (JNum 5)"
  have h1: "getProp (Some ?m) ''type'' = Some (JStr ''join_document'')"
    by (simp add: joinFrame_def)
  have h2: "JStr ''t1'' = nullish (getProp (Some ?m) ''token'') JNull"
    by (simp add: joinFrame_def)
  have h3: "Some (JNum 5) = getProp (Some ?m) ''documentId''"
    by (simp add: joinFrame_def)
  have h4: "verifyToken testLib (JStr ''t1'') = Some \<lparr>auth_userId = ''u1'', auth_email = ''u1@x''\<rparr>"
    by (simp add: verifyToken_def testLib_def)
  have h5: "truthy (Some (JNum 5)) \<and> (\<forall>i. Some (JNum 5) \<noteq> Some (JStr i)) \<and>
            truthy (Some (JStr ''t1''))"
    by simp
  from join_bad_documentId [OF h1 h2 h3, of testLib testEnv 1 testState] h4 h5
  have "onMessage testLib testEnv 1 (Some ?m) testState =
     (testState, [Send 1 (ErrorFrame ''Document not found''), Close 1])" by blast
  with h3 h4 show ?thesis by simp
qed

text \<open>
  C7 as stated fails: user \<open>u1\<close>, with a token that verifies, asks to join the document
  whose id is the empty string; the answer is \<open>Unauthorized\<close>, not \<open>Document not found\<close>.
\<close>

theorem join_empty_documentId_counterexample:
  "verifyToken testLib (JStr ''t1'') = Some \<lparr>auth_userId = ''u1'', auth_email = ''u1@x''\<rparr> \<and>
   getProp (Some (joinFrame ''t1'' (JStr ''''))) ''documentId'' = Some (JStr '''') \<and>
   onMessage testLib testEnv 1 (Some (joinFrame ''t1'' (JStr ''''))) testState =
     (testState, [Send 1 (ErrorFrame ''Unauthorized''), Close 1])"
  by (simp add: verifyToken_def testLib_def joinFrame_def onMessage_def joinDocument_def)

section \<open>Persisting a room\<close>










section \<open>Loading the snapshot of a new room\<close>

text \<open>
  The order of the two loads. A cache snapshot that is read and applies gives the room its
  document. When the cache is not ready, its read throws, or it holds nothing for the
  document, the new document is untouched and the snapshot of the most recent version row,
  if it applies, gives the room its document; when that query throws or finds no snapshot,
  the room starts empty.
\<close>

lemma loadDoc_order:
  "(redisAvailable s \<and> redisReady e \<and> \<not> redisGetThrows e \<longrightarrow>
      (\<forall>b x. redis s (getRedisKey d) = Some b \<and> b \<noteq> [] \<and>
             restoreFrom L b (newDoc L) = Applied x \<longrightarrow> loadDoc L e d s = x)) \<and>
   (\<not> (redisAvailable s \<and> redisReady e \<and> \<not> redisGetThrows e) \<or>
    redis s (getRedisKey d) = None \<or> redis s (getRedisKey d) = Some [] \<longrightarrow>
      (\<not> versionFindThrows e \<longrightarrow>
         (\<forall>v y. findLatestVersion (db s) d = Some v \<and> ver_snapshot v \<noteq> [] \<and>
                restoreFrom L (ver_snapshot v) (newDoc L) = Applied y \<longrightarrow> loadDoc L e d s = y)) \<and>
      (versionFindThrows e \<or> findLatestVersion (db s) d = None \<or>
       (\<exists>v. findLatestVersion (db s) d = Some v \<and> ver_snapshot v = []) \<longrightarrow>
         loadDoc L e d s = newDoc L))"
  by (auto simp: loadDoc_def restoreFromRedis_def restoreFromDatabase_def split: option.splits)

text \<open>
  C5 fails when applying a snapshot throws after it has changed the document. The cache
  holds for document \<open>A\<close> the text \<open>AQEBAAQBB2NvbnRlbnQBYQ==\<close>, which decodes to an update
  cut off before its delete set, and the most recent version row of \<open>A\<close> holds the same
  snapshot. Yjs integrates the struct of the update and then throws, in the cache load and
  again in the store load on the same document. Both loads fail, both \<^verbatim>\<open>catch\<close> blocks
  only log, and the room created by the owner's join does not start empty: it holds the
  insertion, which the \<open>doc_sync\<close> frame hands to the joiner, where an empty document
  would give \<open>AAA=\<close>. The join itself succeeds.
\<close>

theorem failed_loads_leave_content:
  "newDoc yLib = [] \<and>
   redis cutSnapshots (getRedisKey ''A'') = Some ''AQEBAAQBB2NvbnRlbnQBYQ=='' \<and>
   map (\<lambda>v. (ver_snapshot v, ver_createdAt v)) (documentVersions (db cutSnapshots)) =
     [(''AAA='', 5), (''AQEBAAQBB2NvbnRlbnQBYQ=='', 7), (''AAA='', 6)] \<and>
   map_option ver_snapshot (findLatestVersion (db cutSnapshots) ''A'') =
     Some ''AQEBAAQBB2NvbnRlbnQBYQ=='' \<and>
   decodeUpdate yLib (JStr ''AQEBAAQBB2NvbnRlbnQBYQ=='') = Some insertA \<and>
   applyUpdate yLib insertA [] = Threw [insertA] \<and>
   applyUpdate yLib insertA [insertA] = Threw [insertA] \<and>
   restoreFromRedis yLib cacheReady ''A'' cutSnapshots = ([insertA], False) \<and>
   restoreFromDatabase yLib cacheReady ''A'' cutSnapshots [insertA] = ([insertA], False) \<and>
   room_doc (heap (fst (onMessage yLib cacheReady 1 (Some (joinFrame ''t1'' (JStr ''A'')))
                          cutSnapshots)) 0) = [insertA] \<and>
   hd (snd (onMessage yLib cacheReady 1 (Some (joinFrame ''t1'' (JStr ''A''))) cutSnapshots)) =
     Send 1 (DocSync ''A'' ''AQEBAAQBB2NvbnRlbnQBYQA='') \<and>
   encodeUpdate yLib (encodeStateAsUpdate yLib (newDoc yLib)) = ''AAA='' \<and>
   connectionState (fst (onMessage yLib cacheReady 1 (Some (joinFrame ''t1'' (JStr ''A'')))
                          cutSnapshots)) 1 =
     Some \<lparr>cs_documentId = ''A'', cs_userId = ''u1'', cs_permission = ''owner''\<rparr>"
  by (simp add: y_defs cutSnapshots_def cacheReady_def test_defs handler_defs Let_def)

section \<open>Heartbeats\<close>

lemmas sweep_defs = sweep_def sweepStep_def cleanupRoom_def evictStep_def heartbeatTimeoutMs_def
  persistDelayMs_def dbPersistIntervalMs_def

text \<open>
  The \<open>heartbeat\<close> frame and the \<open>pong\<close> handler set the heartbeat of the connection's
  presence entry to the current time, and so does \<open>cursor_update\<close>.
\<close>

lemma touchHeartbeat_refreshes:
  "map_of (presence (heap s a)) c = Some p \<Longrightarrow>
   map_of (presence (heap (touchHeartbeat e c a s) a)) c = Some (p\<lparr>p_lastHeartbeat := now e\<rparr>)"
  by (simp add: touchHeartbeat_def update_conv')

lemma cursorUpdate_refreshes:
  "map_of (presence (heap s a)) c = Some p \<Longrightarrow>
   \<exists>p'. map_of (presence (heap (fst (cursorUpdate e c m st a s)) a)) c = Some p' \<and>
        p_lastHeartbeat p' = now e"
  by (simp add: cursorUpdate_def Let_def update_conv')

text \<open>
  C6 fails for \<open>yjs_update\<close>. The owner joined document \<open>A\<close> at time 100000 and sends the
  update \<open>AB\<close> at time 111000. The update is applied, yet the heartbeat of the presence
  entry is still 100000, and a sweeper pass at that moment evicts the connection.
\<close>

theorem yjs_update_keeps_heartbeat:
  "now env111 = 111000 \<and>
   map (p_lastHeartbeat \<circ> snd) (presence (heap ownerJoined 0)) = [100000] \<and>
   room_doc (heap (fst (onMessage testLib env111 1 (Some (updateFrame ''AB'')) ownerJoined)) 0) =
     [[0, 1]] \<and>
   map (p_lastHeartbeat \<circ> snd)
     (presence (heap (fst (onMessage testLib env111 1 (Some (updateFrame ''AB'')) ownerJoined)) 0)) =
     [100000] \<and>
   connectionState
     (fst (sweep env111 (fst (onMessage testLib env111 1 (Some (updateFrame ''AB'')) ownerJoined)))) 1 =
     None \<and>
   snd (sweep env111 (fst (onMessage testLib env111 1 (Some (updateFrame ''AB'')) ownerJoined))) =
     [Terminate 1]"
  by (simp add: ownerJoined_eq env111_def test_defs handler_defs sweep_defs Let_def)

section \<open>The three tracking structures\<close>

lemma joinedTwice_eq:
  "joinedTwice =
     testState\<lparr>heap := (heap testState)
                 (0 := \<lparr>room_doc = [], connections = [1],
                        presence = [(1, \<lparr>p_userId = ''u1'', p_name = JStr ''u1@x'',
                                        p_avatarColor = JStr ''#0ea5e9'', p_cursorPosition = JNum 0,
                                        p_selectionRange = JObj [(''start'', JNum 0), (''end'', JNum 0)],
                                        p_isTyping = JBool False, p_lastHeartbeat = 100000\<rparr>)],
                        persistTimeout = None\<rparr>,
                  1 := \<lparr>room_doc = [], connections = [1],
                        presence = [(1, \<lparr>p_userId = ''u1'', p_name = JStr ''u1@x'',
                                        p_avatarColor = JStr ''#0ea5e9'', p_cursorPosition = JNum 0,
                                        p_selectionRange = JObj [(''start'', JNum 0), (''end'', JNum 0)],
                                        p_isTyping = JBool False, p_lastHeartbeat = 100000\<rparr>)],
                        persistTimeout = None\<rparr>),
               nextRoom := 2, rooms := [(''A'', 0), (''B'', 1)],
               connectionState := [1 \<mapsto> \<lparr>cs_documentId = ''B'', cs_userId = ''u1'',
                                          cs_permission = ''owner''\<rparr>]\<rparr>"
  by (simp add: joinedTwice_def test_defs handler_defs Let_def)

lemma reachable_joinedTwice: "reachable testLib joinedTwice"
  unfolding joinedTwice_def by (rule reachable_run) (rule reachable.reach_init, rule initial_testState)

text \<open>
  C8 fails on a second join. Connection 1 joins document \<open>A\<close> and then document \<open>B\<close>
  without leaving: it stays a member of room \<open>A\<close> (connection set and presence map) while
  \<^verbatim>\<open>connectionState\<close> records document \<open>B\<close>. After a heartbeat at time 110000, which
  reaches room \<open>B\<close> only, the sweeper pass at time 111000 evicts the connection from room
  \<open>A\<close>, deletes its \<^verbatim>\<open>connectionState\<close> entry and terminates the socket, while room \<open>B\<close>
  still lists the connection in its connection set and presence map.
\<close>

theorem second_join_breaks_tracking:
  "reachable testLib joinedTwice \<and>
   map_of (rooms joinedTwice) ''A'' = Some 0 \<and>
   connections (heap joinedTwice 0) = [1] \<and>
   map fst (presence (heap joinedTwice 0)) = [1] \<and>
   connectionState joinedTwice 1 =
     Some \<lparr>cs_documentId = ''B'', cs_userId = ''u1'', cs_permission = ''owner''\<rparr> \<and>
   connectionState
     (run testLib [(env110, Message 1 (Some (plainFrame ''heartbeat''))), (env111, Sweep)]
        joinedTwice) 1 = None \<and>
   rooms
     (run testLib [(env110, Message 1 (Some (plainFrame ''heartbeat''))), (env111, Sweep)]
        joinedTwice) = [(''B'', 1)] \<and>
   connections
     (heap (run testLib [(env110, Message 1 (Some (plainFrame ''heartbeat''))), (env111, Sweep)]
        joinedTwice) 1) = [1] \<and>
   map fst (presence
     (heap (run testLib [(env110, Message 1 (Some (plainFrame ''heartbeat''))), (env111, Sweep)]
        joinedTwice) 1)) = [1]"
  using reachable_joinedTwice
  by (simp add: joinedTwice_eq env110_def env111_def test_defs handler_defs sweep_defs Let_def)

section \<open>Rooms in the registry\<close>

subsection \<open>Handlers that leave the registry alone\<close>

lemma onMessage_keeps_registry:
  assumes "\<forall>m. data = Some m \<longrightarrow> getProp (Some m) ''type'' \<noteq> Some (JStr ''join_document'')"
  shows "rooms (fst (onMessage L e c data s)) = rooms s"
proof (cases data)
  case None
  then show ?thesis by (simp add: onMessage_def)
next
  case (Some m)
  with assms have nj: "getProp (Some m) ''type'' \<noteq> Some (JStr ''join_document'')" by simp
  have y: "rooms (fst (yjsUpdate L e c m st a s)) = rooms s" for st a
    by (simp add: yjsUpdate_def Let_def split: option.splits applied.splits)
  have cu: "rooms (fst (cursorUpdate e c m st a s)) = rooms s" for st a
    by (simp add: cursorUpdate_def Let_def split: option.splits)
  have lv: "rooms (fst (leaveDocument e c st a s)) = rooms s" for st a
    by (simp add: leaveDocument_def Let_def)
  have th: "rooms (touchHeartbeat e c a s) = rooms s" for a
    by (simp add: touchHeartbeat_def split: option.splits)
  from Some nj show ?thesis
    by (simp add: onMessage_def Let_def y cu lv th split: option.splits)
qed

lemma onClose_keeps_registry: "rooms (fst (onClose e c s)) = rooms s"
  by (simp add: onClose_def leaveDocument_def Let_def split: option.splits)

lemma onPong_keeps_registry: "rooms (onPong e c s) = rooms s"
  by (simp add: onPong_def touchHeartbeat_def split: option.splits)

lemma persistToDatabase_ignores_registry:
  "persistToDatabase e d snap (s\<lparr>rooms := r\<rparr>) = (persistToDatabase e d snap s)\<lparr>rooms := r\<rparr>"
  by (simp add: persistToDatabase_def Let_def split: option.splits)

lemma persistRoom_ignores_registry:
  "persistRoom L e d room (s\<lparr>rooms := r\<rparr>) = (persistRoom L e d room s)\<lparr>rooms := r\<rparr>"
proof -
  have off: "s\<lparr>rooms := r, redisAvailable := False\<rparr> = (s\<lparr>redisAvailable := False\<rparr>)\<lparr>rooms := r\<rparr>"
    by simp
  have db: "persistRoom L e d room (s\<lparr>rooms := r\<rparr>) =
              (persistRoom L e d room s)\<lparr>rooms := r\<rparr>"
    if "\<not> redisAvailable s \<or> \<not> redisReady e"
    using that by (auto simp: persistRoom_def Let_def persistToDatabase_ignores_registry)
  have cache: "persistRoom L e d room (s\<lparr>rooms := r\<rparr>) =
              (persistRoom L e d room s)\<lparr>rooms := r\<rparr>"
    if up: "redisAvailable s" "redisReady e"
  proof (cases "redisSetThrows e")
    case None
    with up show ?thesis by (simp add: persistRoom_def Let_def)
  next
    case (Some f)
    show ?thesis
    proof (cases f)
      case ConnectionIsClosed
      have "persistToDatabase e d x (s\<lparr>rooms := r, redisAvailable := False\<rparr>) =
              (persistToDatabase e d x (s\<lparr>redisAvailable := False\<rparr>))\<lparr>rooms := r\<rparr>" for x
        unfolding off by (rule persistToDatabase_ignores_registry)
      with up Some ConnectionIsClosed show ?thesis
        by (simp add: persistRoom_def Let_def)
    next
      case OtherFailure
      with up Some show ?thesis
        by (simp add: persistRoom_def Let_def persistToDatabase_ignores_registry)
    qed
  qed
  from db cache show ?thesis by blast
qed

lemma persistTimerFired_ignores_registry:
  "persistTimerFired L e a (s\<lparr>rooms := r\<rparr>) = (persistTimerFired L e a s)\<lparr>rooms := r\<rparr>"
proof (cases "persistTimeout (heap s a)")
  case None
  then show ?thesis by (simp add: persistTimerFired_def)
next
  case (Some t)
  let ?room = "(heap s a)\<lparr>persistTimeout := None\<rparr>"
  let ?s1 = "s\<lparr>heap := (heap s)(a := ?room)\<rparr>"
  have sw: "s\<lparr>rooms := r, heap := (heap s)(a := ?room)\<rparr> = ?s1\<lparr>rooms := r\<rparr>" by simp
  have "persistTimerFired L e a (s\<lparr>rooms := r\<rparr>) =
          persistRoom L e (timer_documentId t) ?room (?s1\<lparr>rooms := r\<rparr>)"
    using Some by (simp add: persistTimerFired_def Let_def sw)
  also have "\<dots> = (persistRoom L e (timer_documentId t) ?room ?s1)\<lparr>rooms := r\<rparr>"
    by (rule persistRoom_ignores_registry)
  also have "\<dots> = (persistTimerFired L e a s)\<lparr>rooms := r\<rparr>"
    using Some by (simp add: persistTimerFired_def Let_def)
  finally show ?thesis .
qed

lemma persistTimerFired_keeps_registry: "rooms (persistTimerFired L e a s) = rooms s"
proof -
  from persistTimerFired_ignores_registry [where L = L and e = e and a = a and s = s
      and r = "rooms s"]
  have "rooms (persistTimerFired L e a s) = rooms (persistTimerFired L e a (s\<lparr>rooms := rooms s\<rparr>))"
    by simp
  also have "\<dots> = rooms ((persistTimerFired L e a s)\<lparr>rooms := rooms s\<rparr>)"
    by (simp only: persistTimerFired_ignores_registry)
  finally show ?thesis by simp
qed

subsection \<open>The sweeper\<close>

lemma evictStep_unfold:
  "evictStep e (room, cs, effs, u) x =
     (if stale e x then
        (room\<lparr>presence := AList.delete (fst x) (presence room),
               connections := removeAll (fst x) (connections room)\<rparr>,
         cs(fst x := None), effs @ [Terminate (fst x)], True)
      else (room, cs, effs, u))"
  by (simp add: evictStep_def stale_def)

text \<open>The room after the eviction loop has run over the entries \<open>xs\<close>.\<close>

lemma evict_fold_room:
  "fst (foldl (evictStep e) (room, cs, effs, u) xs) =
     room\<lparr>presence := filter (\<lambda>x. fst x \<notin> set (map fst (filter (stale e) xs))) (presence room),
          connections := filter (\<lambda>c. c \<notin> set (map fst (filter (stale e) xs))) (connections room)\<rparr>"
proof (induction xs arbitrary: room cs effs u)
  case Nil
  then show ?case by simp
next
  case (Cons x xs)
  show ?case
  proof (cases "stale e x")
    case False
    with Cons.IH [of room cs effs u] show ?thesis by (simp add: evictStep_unfold)
  next
    case True
    let ?room1 = "room\<lparr>presence := AList.delete (fst x) (presence room),
                       connections := removeAll (fst x) (connections room)\<rparr>"
    have p: "filter (\<lambda>y. fst y \<notin> K) (AList.delete k ps) =
             filter (\<lambda>y. fst y \<noteq> k \<and> fst y \<notin> K) ps"
      for K k and ps :: "(conn \<times> presenceEntry) list"
      by (auto simp: AList.delete_eq intro: filter_cong)
    have c: "filter (\<lambda>y. y \<notin> K) (removeAll k cs') =
             filter (\<lambda>y. y \<noteq> k \<and> y \<notin> K) cs'"
      for K k and cs' :: "conn list"
      by (auto simp: removeAll_filter_not_eq intro: filter_cong)
    have step: "foldl (evictStep e) (room, cs, effs, u) (x # xs) =
                  foldl (evictStep e)
                    (?room1, cs(fst x := None), effs @ [Terminate (fst x)], True) xs"
      using True by (simp add: evictStep_unfold)
    show ?thesis unfolding step Cons.IH using True by (simp add: p c)
  qed
qed

lemma cleanupRoom_heap:
  "heap (fst (cleanupRoom e d a s)) = (heap s)(a := evicted e (heap s a))"
proof -
  obtain room cs effs u where f:
    "foldl (evictStep e) (heap s a, connectionState s, [], False) (presence (heap s a)) =
       (room, cs, effs, u)"
    by (metis prod_cases4)
  from evict_fold_room [of e "heap s a" "connectionState s" "[]" False "presence (heap s a)"] f
  have "room = evicted e (heap s a)"
    by (simp add: evicted_def survivors_def staleConnections_def)
  with f show ?thesis by (simp add: cleanupRoom_def Let_def)
qed

lemma cleanupRoom_rooms:
  "rooms (fst (cleanupRoom e d a s)) =
     (if survivors e (heap s a) = [] then AList.delete d (rooms s) else rooms s)"
proof -
  obtain room cs effs u where f:
    "foldl (evictStep e) (heap s a, connectionState s, [], False) (presence (heap s a)) =
       (room, cs, effs, u)"
    by (metis prod_cases4)
  from evict_fold_room [of e "heap s a" "connectionState s" "[]" False "presence (heap s a)"] f
  have "connections room = survivors e (heap s a)"
    by (simp add: survivors_def staleConnections_def)
  with f show ?thesis by (simp add: cleanupRoom_def Let_def)
qed

lemma staleConnections_evicted: "staleConnections e (evicted e room) = []"
  by (auto simp: staleConnections_def evicted_def filter_empty_conv)

lemma evicted_idem: "evicted e (evicted e room) = evicted e room"
proof -
  have "evicted e (evicted e room) =
          (evicted e room)\<lparr>presence := presence (evicted e room),
                           connections := connections (evicted e room)\<rparr>"
    unfolding evicted_def [of e "evicted e room"] survivors_def [of e "evicted e room"]
      staleConnections_evicted by simp
  then show ?thesis by simp
qed

lemma connections_evicted: "connections (evicted e room) = survivors e room"
  by (simp add: evicted_def)

text \<open>
  The loop of the sweeper over the registry entries \<open>es\<close>, started in a state \<open>s1\<close> whose
  rooms are those of \<open>s0\<close>, some of them already cleaned.
\<close>

lemma sweep_fold:
  assumes "\<forall>b. heap s1 b = heap s0 b \<or> heap s1 b = evicted e (heap s0 b)"
  shows "rooms (fst (foldl (sweepStep e) (s1, effs) es)) =
           filter (\<lambda>x. \<forall>y \<in> set es. fst y = fst x \<longrightarrow> survivors e (heap s0 (snd y)) \<noteq> [])
             (rooms s1) \<and>
         (\<forall>b. heap (fst (foldl (sweepStep e) (s1, effs) es)) b =
                (if b \<in> snd ` set es then evicted e (heap s0 b) else heap s1 b))"
  using assms
proof (induction es arbitrary: s1 effs)
  case Nil
  then show ?case by simp
next
  case (Cons x es)
  let ?s2 = "fst (cleanupRoom e (fst x) (snd x) s1)"
  let ?effs2 = "effs @ snd (cleanupRoom e (fst x) (snd x) s1)"
  have st: "foldl (sweepStep e) (s1, effs) (x # es) = foldl (sweepStep e) (?s2, ?effs2) es"
    by (simp add: sweepStep_def split_beta)
  from Cons.prems have ev: "evicted e (heap s1 (snd x)) = evicted e (heap s0 (snd x))"
    by (metis evicted_idem)
  have h2: "heap ?s2 = (heap s1)(snd x := evicted e (heap s0 (snd x)))"
    by (simp add: cleanupRoom_heap ev)
  have sv: "survivors e (heap s1 (snd x)) = survivors e (heap s0 (snd x))"
    using ev connections_evicted by metis
  have r2: "rooms ?s2 =
              filter (\<lambda>y. fst x = fst y \<longrightarrow> survivors e (heap s0 (snd x)) \<noteq> []) (rooms s1)"
    by (auto simp: cleanupRoom_rooms sv AList.delete_eq intro: filter_cong)
  have inv2: "\<forall>b. heap ?s2 b = heap s0 b \<or> heap ?s2 b = evicted e (heap s0 b)"
    using Cons.prems by (simp add: h2)
  note ih = Cons.IH [OF inv2, of ?effs2]
  have a: "rooms (fst (foldl (sweepStep e) (s1, effs) (x # es))) =
           filter (\<lambda>z. \<forall>y \<in> set (x # es). fst y = fst z \<longrightarrow> survivors e (heap s0 (snd y)) \<noteq> [])
             (rooms s1)"
    unfolding st using ih by (simp add: r2)
  have b: "heap (fst (foldl (sweepStep e) (s1, effs) (x # es))) b =
             (if b \<in> snd ` set (x # es) then evicted e (heap s0 b) else heap s1 b)" for b
    unfolding st using ih by (simp add: h2)
  from a b show ?case by blast
qed

lemma sweep_registry:
  "rooms (fst (sweep e s)) =
     filter (\<lambda>x. \<forall>y \<in> set (rooms s). fst y = fst x \<longrightarrow> survivors e (heap s (snd y)) \<noteq> [])
       (rooms s)"
  and sweep_heap:
  "heap (fst (sweep e s)) b =
     (if b \<in> snd ` set (rooms s) then evicted e (heap s b) else heap s b)"
proof -
  have "\<forall>b. heap s b = heap s b \<or> heap s b = evicted e (heap s b)" by simp
  note f = sweep_fold [OF this, of "[]" "rooms s"]
  have fs: "fst (sweep e s) = fst (foldl (sweepStep e) (s, []) (rooms s))"
    by (simp add: sweep_def split_beta)
  from f show "rooms (fst (sweep e s)) =
     filter (\<lambda>x. \<forall>y \<in> set (rooms s). fst y = fst x \<longrightarrow> survivors e (heap s (snd y)) \<noteq> [])
       (rooms s)"
    unfolding fs by blast
  from f show "heap (fst (sweep e s)) b =
     (if b \<in> snd ` set (rooms s) then evicted e (heap s b) else heap s b)"
    unfolding fs by blast
qed

lemma sweep_registry_distinct:
  assumes "distinct (map fst (rooms s))"
  shows "rooms (fst (sweep e s)) = filter (\<lambda>x. survivors e (heap s (snd x)) \<noteq> []) (rooms s)"
proof -
  have eq: "(\<forall>y \<in> set (rooms s). fst y = fst x \<longrightarrow> survivors e (heap s (snd y)) \<noteq> []) \<longleftrightarrow>
        survivors e (heap s (snd x)) \<noteq> []" if "x \<in> set (rooms s)" for x
  proof
    assume "\<forall>y \<in> set (rooms s). fst y = fst x \<longrightarrow> survivors e (heap s (snd y)) \<noteq> []"
    with that show "survivors e (heap s (snd x)) \<noteq> []" by blast
  next
    assume ne: "survivors e (heap s (snd x)) \<noteq> []"
    show "\<forall>y \<in> set (rooms s). fst y = fst x \<longrightarrow> survivors e (heap s (snd y)) \<noteq> []"
    proof (intro ballI impI)
      fix y assume "y \<in> set (rooms s)" "fst y = fst x"
      with that assms have "y = x" by (metis eq_key_imp_eq_value prod.collapse)
      with ne show "survivors e (heap s (snd y)) \<noteq> []" by simp
    qed
  qed
  show ?thesis unfolding sweep_registry
  proof (rule filter_cong [OF refl])
    fix x assume "x \<in> set (rooms s)"
    from eq [OF this]
    show "(\<forall>y \<in> set (rooms s). fst y = fst x \<longrightarrow> survivors e (heap s (snd y)) \<noteq> []) =
          (survivors e (heap s (snd x)) \<noteq> [])" .
  qed
qed

text \<open>
  C2, as amended. The branches of the message handler other than \<open>join_document\<close>, the
  \<open>close\<close> and \<open>pong\<close> handlers and a firing persist timer leave the registry as it is; so a
  room whose last connection has left stays registered until the sweeper runs. The registry
  is a \<^verbatim>\<open>Map\<close>, so each document id occurs in it once; a sweeper pass then keeps
  exactly the registered rooms that still have a connection once the connections with
  stale presence entries are evicted, and removes the others, whether or not their persist
  timer is pending. It changes no room's timer and no room's document. A timer that fires
  does to the stores what it would do if the room were registered: the registry plays no
  part in it.
\<close>

theorem registry_changes:
  "(\<forall>data. (\<forall>m. data = Some m \<longrightarrow> getProp (Some m) ''type'' \<noteq> Some (JStr ''join_document'')) \<longrightarrow>
      rooms (fst (onMessage L e c data s)) = rooms s) \<and>
   rooms (fst (onClose e c s)) = rooms s \<and>
   rooms (onPong e c s) = rooms s \<and>
   rooms (persistTimerFired L e a s) = rooms s \<and>
   (distinct (map fst (rooms s)) \<longrightarrow>
      rooms (fst (sweep e s)) = filter (\<lambda>x. survivors e (heap s (snd x)) \<noteq> []) (rooms s)) \<and>
   (\<forall>x \<in> set (rooms s).
      connections (heap (fst (sweep e s)) (snd x)) = survivors e (heap s (snd x))) \<and>
   (\<forall>b. persistTimeout (heap (fst (sweep e s)) b) = persistTimeout (heap s b) \<and>
        room_doc (heap (fst (sweep e s)) b) = room_doc (heap s b)) \<and>
   (\<forall>r. persistTimerFired L e a (s\<lparr>rooms := r\<rparr>) = (persistTimerFired L e a s)\<lparr>rooms := r\<rparr>)"
proof -
  have A: "\<forall>data. (\<forall>m. data = Some m \<longrightarrow>
                     getProp (Some m) ''type'' \<noteq> Some (JStr ''join_document'')) \<longrightarrow>
             rooms (fst (onMessage L e c data s)) = rooms s"
    using onMessage_keeps_registry by blast
  have B: "distinct (map fst (rooms s)) \<longrightarrow>
      rooms (fst (sweep e s)) = filter (\<lambda>x. survivors e (heap s (snd x)) \<noteq> []) (rooms s)"
    using sweep_registry_distinct by blast
  have C: "\<forall>x \<in> set (rooms s).
      connections (heap (fst (sweep e s)) (snd x)) = survivors e (heap s (snd x))"
    by (simp add: sweep_heap connections_evicted)
  have D: "\<forall>b. persistTimeout (heap (fst (sweep e s)) b) = persistTimeout (heap s b) \<and>
        room_doc (heap (fst (sweep e s)) b) = room_doc (heap s b)"
    by (simp add: sweep_heap evicted_def)
  have E: "\<forall>r. persistTimerFired L e a (s\<lparr>rooms := r\<rparr>) = (persistTimerFired L e a s)\<lparr>rooms := r\<rparr>"
    using persistTimerFired_ignores_registry by blast
  show ?thesis
    by (intro conjI, rule A, rule onClose_keeps_registry, rule onPong_keeps_registry,
        rule persistTimerFired_keeps_registry, rule B, rule C, rule D, rule E)
qed

lemma reachable_joinedAndLeft: "reachable testLib joinedAndLeft"
  unfolding joinedAndLeft_def by (rule reachable_run) (rule reachable.reach_init, rule initial_testState)

lemma reachable_editedAndLeft: "reachable yLib editedAndLeft"
  unfolding editedAndLeft_def by (rule reachable_run) (rule reachable.reach_init, rule initial_testState)

lemma editedAndLeft_eq:
  "editedAndLeft =
     testState\<lparr>heap := (heap testState)
                 (0 := \<lparr>room_doc = [], connections = [], presence = [],
                        persistTimeout = Some \<lparr>timer_due = 105000, timer_documentId = ''A''\<rparr>\<rparr>),
               nextRoom := 1, rooms := [(''A'', 0)], connectionState := Map.empty,
               operations := [100000]\<rparr>"
  by (simp add: editedAndLeft_def y_defs test_defs handler_defs sweep_defs Let_def)

text \<open>
  On the test relay: the owner's leave keeps room \<open>A\<close> registered; a sweeper pass keeps it
  while the owner is joined and fresh; after the owner edited and left, the room has no
  survivor and a pending timer, and the sweeper pass removes it and leaves the timer pending.
\<close>

theorem registry_changes_witness:
  "rooms ownerJoined = [(''A'', 0)] \<and>
   rooms (fst (onMessage testLib testEnv 1 (Some (plainFrame ''leave_document'')) ownerJoined)) =
     [(''A'', 0)] \<and>
   survivors testEnv (heap ownerJoined 0) = [1] \<and>
   rooms (fst (sweep testEnv ownerJoined)) = [(''A'', 0)] \<and>
   rooms editedAndLeft = [(''A'', 0)] \<and>
   survivors testEnv (heap editedAndLeft 0) = [] \<and>
   persistTimeout (heap editedAndLeft 0) =
     Some \<lparr>timer_due = 105000, timer_documentId = ''A''\<rparr> \<and>
   rooms (fst (sweep testEnv editedAndLeft)) = [] \<and>
   persistTimeout (heap (fst (sweep testEnv editedAndLeft)) 0) =
     Some \<lparr>timer_due = 105000, timer_documentId = ''A''\<rparr>"
proof -
  note t1 = registry_changes [where s = ownerJoined and e = testEnv and L = testLib and c = 1]
  note t2 = registry_changes [where s = editedAndLeft and e = testEnv and L = yLib]
  have r1: "rooms ownerJoined = [(''A'', 0)]" by (simp add: ownerJoined_eq)
  have r2: "rooms editedAndLeft = [(''A'', 0)]" by (simp add: editedAndLeft_eq)
  have nj: "\<forall>m. Some (plainFrame ''leave_document'') = Some m \<longrightarrow>
              getProp (Some m) ''type'' \<noteq> Some (JStr ''join_document'')"
    by (simp add: plainFrame_def)
  from t1 nj have a: "rooms (fst (onMessage testLib testEnv 1
      (Some (plainFrame ''leave_document'')) ownerJoined)) = rooms ownerJoined" by blast
  have s1: "survivors testEnv (heap ownerJoined 0) = [1]"
    by (simp add: survivors_def staleConnections_def stale_def heartbeatTimeoutMs_def
        ownerJoined_eq testEnv_def)
  have s2: "survivors testEnv (heap editedAndLeft 0) = []"
    by (simp add: survivors_def editedAndLeft_eq)
  have d1: "distinct (map fst (rooms ownerJoined))" by (simp add: r1)
  have d2: "distinct (map fst (rooms editedAndLeft))" by (simp add: r2)
  from t1 d1 have "rooms (fst (sweep testEnv ownerJoined)) =
      filter (\<lambda>x. survivors testEnv (heap ownerJoined (snd x)) \<noteq> []) (rooms ownerJoined)"
    by blast
  with r1 s1 have b: "rooms (fst (sweep testEnv ownerJoined)) = [(''A'', 0)]" by simp
  from t2 d2 have "rooms (fst (sweep testEnv editedAndLeft)) =
      filter (\<lambda>x. survivors testEnv (heap editedAndLeft (snd x)) \<noteq> []) (rooms editedAndLeft)"
    by blast
  with r2 s2 have c: "rooms (fst (sweep testEnv editedAndLeft)) = []" by simp
  have p: "persistTimeout (heap editedAndLeft 0) =
     Some \<lparr>timer_due = 105000, timer_documentId = ''A''\<rparr>"
    by (simp add: editedAndLeft_eq)
  from t2 have "persistTimeout (heap (fst (sweep testEnv editedAndLeft)) 0) =
      persistTimeout (heap editedAndLeft 0)" by blast
  with p have q: "persistTimeout (heap (fst (sweep testEnv editedAndLeft)) 0) =
     Some \<lparr>timer_due = 105000, timer_documentId = ''A''\<rparr>" by simp
  from r1 a s1 b r2 s2 p c q show ?thesis by simp
qed

text \<open>
  C2 as stated fails in each of its parts. After the owner joined document \<open>A\<close> and left,
  the room is in the registry with no connection and no pending persist. After the owner
  joined, sent the update \<open>AAA=\<close> and left, the persist timer of the room is pending; the
  sweeper pass removes the room from the registry all the same, the timer still pending on
  the removed room, and when that timer fires afterwards the snapshot is saved. After two
  joins of \<open>A\<close> that overlap, the viewer on connection 2 is joined to the room at address
  0 while the registry holds the room at address 1, which the owner's join registered
  over it.
\<close>

theorem room_registry_counterexample:
  "reachable testLib joinedAndLeft \<and>
   map_of (rooms joinedAndLeft) ''A'' = Some 0 \<and>
   connections (heap joinedAndLeft 0) = [] \<and>
   connectionState joinedAndLeft = Map.empty \<and>
   persistTimeout (heap joinedAndLeft 0) = None \<and>
   reachable yLib (run yLib [(testEnv, Sweep)] editedAndLeft) \<and>
   map_of (rooms editedAndLeft) ''A'' = Some 0 \<and>
   persistTimeout (heap editedAndLeft 0) =
     Some \<lparr>timer_due = 105000, timer_documentId = ''A''\<rparr> \<and>
   rooms (run yLib [(testEnv, Sweep)] editedAndLeft) = [] \<and>
   persistTimeout (heap (run yLib [(testEnv, Sweep)] editedAndLeft) 0) =
     Some \<lparr>timer_due = 105000, timer_documentId = ''A''\<rparr> \<and>
   documentVersions (db (run yLib [(testEnv, Sweep), (env110, PersistTimer 0)] editedAndLeft)) =
     [\<lparr>ver_documentId = ''A'', ver_authorId = ''u1'', ver_summary = ''Auto-save'',
       ver_snapshot = ''AAA='', ver_createdAt = 110000\<rparr>] \<and>
   joinSuspended testLib testEnv 2 (joinFrame ''t2'' (JStr ''A'')) testState = Some viewerPending \<and>
   joinSuspended testLib testEnv 1 (joinFrame ''t1'' (JStr ''A'')) testState = Some ownerPending \<and>
   rooms overlappedJoins = [(''A'', 1)] \<and>
   connections (heap overlappedJoins 0) = [2] \<and>
   connectionState overlappedJoins 2 =
     Some \<lparr>cs_documentId = ''A'', cs_userId = ''u2'', cs_permission = ''viewer''\<rparr>"
proof -
  have a: "map_of (rooms joinedAndLeft) ''A'' = Some 0 \<and>
   connections (heap joinedAndLeft 0) = [] \<and>
   connectionState joinedAndLeft = Map.empty \<and>
   persistTimeout (heap joinedAndLeft 0) = None"
    by (simp add: joinedAndLeft_def test_defs handler_defs Let_def)
  have b: "map_of (rooms editedAndLeft) ''A'' = Some 0 \<and>
   persistTimeout (heap editedAndLeft 0) =
     Some \<lparr>timer_due = 105000, timer_documentId = ''A''\<rparr>"
    by (simp add: editedAndLeft_eq)
  have c: "rooms (run yLib [(testEnv, Sweep)] editedAndLeft) = [] \<and>
   persistTimeout (heap (run yLib [(testEnv, Sweep)] editedAndLeft) 0) =
     Some \<lparr>timer_due = 105000, timer_documentId = ''A''\<rparr>"
    by (simp add: editedAndLeft_eq test_defs sweep_defs Let_def)
  have d: "documentVersions (db (run yLib [(testEnv, Sweep), (env110, PersistTimer 0)] editedAndLeft)) =
     [\<lparr>ver_documentId = ''A'', ver_authorId = ''u1'', ver_summary = ''Auto-save'',
       ver_snapshot = ''AAA='', ver_createdAt = 110000\<rparr>]"
    by (simp add: editedAndLeft_eq env110_def y_defs test_defs sweep_defs Let_def
        persistTimerFired_def persistRoom_def persistToDatabase_def findLatestVersion_def
        findDocument_def encodeUpdate_def)
  have e: "rooms overlappedJoins = [(''A'', 1)] \<and>
   connections (heap overlappedJoins 0) = [2] \<and>
   connectionState overlappedJoins 2 =
     Some \<lparr>cs_documentId = ''A'', cs_userId = ''u2'', cs_permission = ''viewer''\<rparr>"
    by (simp add: overlappedJoins_eq)
  from reachable_joinedAndLeft reachable_run [OF reachable_editedAndLeft] a b c d
    pending_joins e
  show ?thesis by blast
qed

end
